theory Spec2Isabelle
  imports Main
begin

section \<open>Python values, exceptions and dictionaries\<close>

text \<open>
  The module \<^verbatim>\<open>dqchecks/panacea.py\<close> compares a template workbook with a company
  workbook and turns what it finds into flat validation events. Exceptions are values of
  type \<open>error\<close>; a function that can raise returns \<open>error + 'a\<close>.
\<close>

datatype error = ValueError | TypeError | AttributeError | KeyError

text \<open>
  Dynamically typed arguments (the dictionaries handed to the event normalizers and the
  fields of their context tuples) are values of \<open>pyobj\<close>. Dictionaries keep their
  insertion order, as Python's do, and have string keys. Floats, booleans, tuples and
  dates are outside the modelled fragment.
\<close>

datatype pyobj =
    PNone
  | PStr string
  | PInt int
  | PList "pyobj list"
  | PDict "(string \<times> pyobj) list"

text \<open>Truthiness (\<^verbatim>\<open>not x\<close>, \<^verbatim>\<open>all([...])\<close>) and \<^verbatim>\<open>isinstance(x, str)\<close>.\<close>

fun truthy :: "pyobj \<Rightarrow> bool" where
  "truthy PNone = False"
| "truthy (PStr s) = (s \<noteq> [])"
| "truthy (PInt n) = (n \<noteq> 0)"
| "truthy (PList xs) = (xs \<noteq> [])"
| "truthy (PDict d) = (d \<noteq> [])"

fun is_str :: "pyobj \<Rightarrow> bool" where
  "is_str (PStr s) = True"
| "is_str _ = False"

text \<open>
  A dictionary is an association list with distinct keys in insertion order.
  \<open>dict_set\<close> is \<^verbatim>\<open>d[k] = v\<close>: an existing key keeps its place.
\<close>

definition dict_has :: "('k \<times> 'v) list \<Rightarrow> 'k \<Rightarrow> bool" where
  "dict_has d k = (k \<in> set (map fst d))"

fun dict_set :: "('k \<times> 'v) list \<Rightarrow> 'k \<Rightarrow> 'v \<Rightarrow> ('k \<times> 'v) list" where
  "dict_set [] k v = [(k, v)]"
| "dict_set ((k', v') # d) k v = (if k' = k then (k, v) # d else (k', v') # dict_set d k v)"

text \<open>\<^verbatim>\<open>d[k].extend(xs)\<close> for a key that is present: the list under \<open>k\<close> grows in place.\<close>

definition list_extend_at :: "('k \<times> 'a list) list \<Rightarrow> 'k \<Rightarrow> 'a list \<Rightarrow> ('k \<times> 'a list) list" where
  "list_extend_at d k xs = map (\<lambda>(k', ys). if k' = k then (k', ys @ xs) else (k', ys)) d"

text \<open>\<^verbatim>\<open>d.setdefault(k, []).extend(xs)\<close>; \<^verbatim>\<open>append(x)\<close> is the case \<open>xs = [x]\<close>.\<close>

definition setdefault_extend :: "('k \<times> 'a list) list \<Rightarrow> 'k \<Rightarrow> 'a list \<Rightarrow> ('k \<times> 'a list) list" where
  "setdefault_extend d k xs = list_extend_at (if dict_has d k then d else d @ [(k, [])]) k xs"

text \<open>
  A Python \<^verbatim>\<open>set\<close> built from a list is modelled by a duplicate-free list. Python leaves
  the iteration order of a set unspecified; the model fixes one of the possible orders.
\<close>

definition py_set :: "'a list \<Rightarrow> 'a list" where
  "py_set xs = remdups xs"

definition set_difference :: "'a list \<Rightarrow> 'a list \<Rightarrow> 'a list" where
  "set_difference a b = filter (\<lambda>x. x \<notin> set b) a"

definition set_intersection :: "'a list \<Rightarrow> 'a list \<Rightarrow> 'a list" where
  "set_intersection a b = filter (\<lambda>x. x \<in> set b) a"

text \<open>\<^verbatim>\<open>sep.join(parts)\<close>.\<close>

fun join :: "string \<Rightarrow> string list \<Rightarrow> string" where
  "join sep [] = []"
| "join sep [x] = x"
| "join sep (x # y # ys) = x @ sep @ join sep (y # ys)"

section \<open>Rendering numbers and column letters\<close>

text \<open>\<^verbatim>\<open>str(n)\<close> of a non-negative integer: its decimal digits, most significant first.\<close>

fun str_nat :: "nat \<Rightarrow> string" where
  "str_nat n =
     (if n < 10 then [char_of (48 + n)]
      else str_nat (n div 10) @ [char_of (48 + n mod 10)])"

declare str_nat.simps [simp del]

definition str_int :: "int \<Rightarrow> string" where
  "str_int i = (if i < 0 then ''-'' @ str_nat (nat (- i)) else str_nat (nat i))"

text \<open>
  \<^verbatim>\<open>openpyxl.utils.get_column_letter\<close>: the bijective base-26 name of a column
  (1 is A, 26 is Z, 27 is AA), defined by the library for the columns A to ZZZ, that is
  1 to 18278, and raising \<^verbatim>\<open>ValueError\<close> outside of that range.
\<close>

fun column_letters :: "nat \<Rightarrow> string" where
  "column_letters n =
     (if n = 0 then []
      else if n mod 26 = 0 then column_letters (n div 26 - 1) @ [char_of (26 + 64 :: nat)]
      else column_letters (n div 26) @ [char_of (n mod 26 + 64)])"

declare column_letters.simps [simp del]

definition get_column_letter :: "nat \<Rightarrow> error + string" where
  "get_column_letter col_idx =
     (if 1 \<le> col_idx \<and> col_idx \<le> 18278 then Inr (column_letters col_idx)
      else Inl ValueError)"

section \<open>Cells, worksheets and workbooks\<close>

text \<open>
  The value of a cell is \<^verbatim>\<open>None\<close>, text or a number. On this fragment Python's
  \<^verbatim>\<open>==\<close> is HOL's equality. \<open>str_scalar\<close> is what an f-string prints.
\<close>

datatype scalar = SNone | SStr string | SNum int

fun str_scalar :: "scalar \<Rightarrow> string" where
  "str_scalar SNone = ''None''"
| "str_scalar (SStr s) = s"
| "str_scalar (SNum n) = str_int n"

text \<open>
  A cell has a value and openpyxl's one-letter \<^verbatim>\<open>data_type\<close> tag
  (\<^verbatim>\<open>'n'\<close> number or empty, \<^verbatim>\<open>'s'\<close> text, \<^verbatim>\<open>'f'\<close> formula,
  \<^verbatim>\<open>'e'\<close> evaluated error).
\<close>

record xl_cell =
  cell_value :: scalar
  data_type :: string

text \<open>
  A worksheet as the module reads it: its title, its nominal extents
  \<^verbatim>\<open>max_row\<close> and \<^verbatim>\<open>max_column\<close>, and \<^verbatim>\<open>sheet.cell(row=r, column=c)\<close>
  as \<open>cell sheet r c\<close>. Rows and columns are numbered from 1. The arguments are
  worksheets and workbooks by their type, so the \<^verbatim>\<open>isinstance\<close> guards on them never
  fire.
\<close>

record worksheet =
  title :: string
  max_row :: nat
  max_column :: nat
  cell :: "nat \<Rightarrow> nat \<Rightarrow> xl_cell"

type_synonym workbook = "worksheet list"

definition sheetnames :: "workbook \<Rightarrow> string list" where
  "sheetnames wb = map title wb"

text \<open>\<^verbatim>\<open>wb[name]\<close>: the first sheet of that title, or \<^verbatim>\<open>KeyError\<close>.\<close>

fun wb_getitem :: "workbook \<Rightarrow> string \<Rightarrow> error + worksheet" where
  "wb_getitem [] name = Inl KeyError"
| "wb_getitem (s # wb) name = (if title s = name then Inr s else wb_getitem wb name)"

text \<open>\<^verbatim>\<open>range(1, n + 1)\<close> and \<^verbatim>\<open>range(n, 0, -1)\<close>.\<close>

definition range1 :: "nat \<Rightarrow> nat list" where
  "range1 n = [1..<n + 1]"

definition range_down :: "nat \<Rightarrow> nat list" where
  "range_down n = rev [1..<n + 1]"

section \<open>Comparators\<close>

record comparison_result =
  status :: string
  description :: string
  errors :: "(string \<times> string list) list"

subsection \<open>Sheet-set differ\<close>

definition validate_tabs_between_spreadsheets :: "workbook \<Rightarrow> workbook \<Rightarrow> comparison_result" where
  "validate_tabs_between_spreadsheets spreadsheet1 spreadsheet2 =
     (let sheets1 = py_set (sheetnames spreadsheet1);
          sheets2 = py_set (sheetnames spreadsheet2);
          missing_in_1 = set_difference sheets2 sheets1;
          missing_in_2 = set_difference sheets1 sheets2;
          result = \<lparr>status = ''Ok'',
                    description = ''Both spreadsheets have the same sheet names.'',
                    errors = []\<rparr>
      in if missing_in_1 \<noteq> [] \<or> missing_in_2 \<noteq> [] then
           (let errors1 = (if missing_in_1 \<noteq> []
                           then dict_set [] ''Missing In Spreadsheet 1'' missing_in_1 else []);
                errors2 = (if missing_in_2 \<noteq> []
                           then dict_set errors1 ''Missing In Spreadsheet 2'' missing_in_2
                           else errors1)
            in result\<lparr>status := ''Error'',
                       description := ''Spreadsheets have different sheet names.'',
                       errors := errors2\<rparr>)
         else result)"

subsection \<open>Used-area detector\<close>

record used_area =
  empty_rows :: nat
  empty_columns :: nat
  last_used_row :: nat
  last_used_column :: nat

text \<open>
  The two counting loops: walk the indices in the given order, add one for each empty
  line, and \<^verbatim>\<open>break\<close> at the first line that is not empty.
\<close>

fun count_empty :: "(nat \<Rightarrow> bool) \<Rightarrow> nat list \<Rightarrow> nat \<Rightarrow> nat" where
  "count_empty is_empty [] cnt = cnt"
| "count_empty is_empty (i # rest) cnt =
     (if is_empty i then count_empty is_empty rest (cnt + 1) else cnt)"

definition row_values :: "worksheet \<Rightarrow> nat \<Rightarrow> scalar list" where
  "row_values sheet row = map (\<lambda>col. cell_value (cell sheet row col)) (range1 (max_column sheet))"

definition column_values :: "worksheet \<Rightarrow> nat \<Rightarrow> scalar list" where
  "column_values sheet col = map (\<lambda>row. cell_value (cell sheet row col)) (range1 (max_row sheet))"

definition all_none :: "scalar list \<Rightarrow> bool" where
  "all_none vs = list_all (\<lambda>c. c = SNone) vs"

text \<open>
  The counts never exceed the extents (lemma \<open>count_empty_le\<close> below), so the two
  subtractions on \<open>nat\<close> are the subtractions of the source.
\<close>

definition get_used_area :: "worksheet \<Rightarrow> used_area" where
  "get_used_area sheet =
     (let empty_row_count =
            count_empty (\<lambda>row. all_none (row_values sheet row)) (range_down (max_row sheet)) 0;
          empty_column_count =
            count_empty (\<lambda>col. all_none (column_values sheet col)) (range_down (max_column sheet)) 0
      in \<lparr>empty_rows = empty_row_count,
          empty_columns = empty_column_count,
          last_used_row = max_row sheet - empty_row_count,
          last_used_column = max_column sheet - empty_column_count\<rparr>)"

text \<open>
  The used-area detector in the words of its specification: the number of rows, counted
  from the last nominal row backward, before the first row that holds a value.
\<close>

definition trailing_empty_rows :: "worksheet \<Rightarrow> nat" where
  "trailing_empty_rows sheet =
     length (takeWhile (\<lambda>row. \<forall>col \<in> {1..max_column sheet}. cell_value (cell sheet row col) = SNone)
               (rev [1..<max_row sheet + 1]))"

definition trailing_empty_columns :: "worksheet \<Rightarrow> nat" where
  "trailing_empty_columns sheet =
     length (takeWhile (\<lambda>col. \<forall>row \<in> {1..max_row sheet}. cell_value (cell sheet row col) = SNone)
               (rev [1..<max_column sheet + 1]))"

subsection \<open>Structure comparator\<close>

definition quote :: "string \<Rightarrow> string" where
  "quote s = [CHR 0x27] @ s @ [CHR 0x27]"

definition row_column_count_message :: "nat \<Rightarrow> nat \<Rightarrow> nat \<Rightarrow> nat \<Rightarrow> string" where
  "row_column_count_message rows1 cols1 rows2 cols2 =
     ''Template file has '' @ str_nat rows1 @ '' rows and '' @ str_nat cols1 @ '' columns, '' @
     ''Company file has '' @ str_nat rows2 @ '' rows and '' @ str_nat cols2 @ '' columns.''"

definition header_mismatch_message :: "nat \<times> scalar \<times> scalar \<Rightarrow> string" where
  "header_mismatch_message d =
     (case d of (i, h1, h2) \<Rightarrow>
        ''Column '' @ str_nat i @ '': Template: ['' @ str_scalar h1 @ ''] != ['' @
        str_scalar h2 @ ''] :Company'')"

text \<open>
  \<^verbatim>\<open>[(i + 1, h1, h2) for i, (h1, h2) in enumerate(zip(header1, header2)) if h1 != h2]\<close>
\<close>

definition diff_headers :: "scalar list \<Rightarrow> scalar list \<Rightarrow> (nat \<times> scalar \<times> scalar) list" where
  "diff_headers header1 header2 =
     map (\<lambda>(i, h1, h2). (i + 1, h1, h2))
       (filter (\<lambda>(i, h1, h2). h1 \<noteq> h2) (enumerate 0 (zip header1 header2)))"

definition header_row :: "worksheet \<Rightarrow> int \<Rightarrow> nat \<Rightarrow> scalar list" where
  "header_row sheet header_row_number cols =
     map (\<lambda>c. cell_value (cell sheet (nat header_row_number) c)) (range1 cols)"

definition check_sheet_structure :: "worksheet \<Rightarrow> worksheet \<Rightarrow> int \<Rightarrow> comparison_result" where
  "check_sheet_structure sheet1 sheet2 header_row_number =
     (let errors0 = [];
          errors1 =
            (if max_row sheet1 = max_column sheet1 \<and> max_column sheet1 = max_row sheet2 \<and>
                max_row sheet2 = max_column sheet2 \<and> max_column sheet2 = 1
             then errors0
             else
               (let e1 = (if max_row sheet1 = 1 \<or> max_column sheet1 = 1
                          then setdefault_extend errors0 ''Empty Sheet'' [title sheet1]
                          else errors0)
                in if max_row sheet2 = 1 \<or> max_column sheet2 = 1
                   then setdefault_extend e1 ''Empty Sheet'' [title sheet2]
                   else e1));
          shape1 = get_used_area sheet1;
          rows1 = last_used_row shape1;
          cols1 = last_used_column shape1;
          shape2 = get_used_area sheet2;
          rows2 = last_used_row shape2;
          cols2 = last_used_column shape2;
          errors2 =
            (if (rows1, cols1) \<noteq> (rows2, cols2)
             then setdefault_extend errors1 ''Row/Column Count''
                    [row_column_count_message rows1 cols1 rows2 cols2]
             else errors1);
          header1 = (if header_row_number > 0 then header_row sheet1 header_row_number cols1 else []);
          header2 = (if header_row_number > 0 then header_row sheet2 header_row_number cols2 else []);
          errors3 =
            (if header1 \<noteq> header2
             then (if diff_headers header1 header2 \<noteq> []
                   then setdefault_extend errors2 ''Header Mismatch''
                          (map header_mismatch_message (diff_headers header1 header2))
                   else errors2)
             else errors2)
      in if errors3 \<noteq> []
         then \<lparr>status = ''Error'',
               description = ''The following discrepancies were found in the sheet structure:'',
               errors = errors3\<rparr>
         else \<lparr>status = ''Ok'',
               description = ''Spreadsheets '' @ quote (title sheet1) @ '' and '' @
                             quote (title sheet2) @ '' have the same structure.'',
               errors = []\<rparr>)"

subsection \<open>Formula comparator\<close>

text \<open>\<^verbatim>\<open>isinstance(v, str) and v.startswith('=')\<close>\<close>

fun is_formula :: "scalar \<Rightarrow> bool" where
  "is_formula (SStr s) = (case s of [] \<Rightarrow> False | c # _ \<Rightarrow> c = CHR ''='')"
| "is_formula _ = False"

text \<open>\<^verbatim>\<open>f"{get_column_letter(col)}{row}"\<close>\<close>

definition cell_name :: "nat \<Rightarrow> nat \<Rightarrow> error + string" where
  "cell_name col row =
     (case get_column_letter col of Inl e \<Rightarrow> Inl e | Inr letters \<Rightarrow> Inr (letters @ str_nat row))"

definition formula_difference_message :: "worksheet \<Rightarrow> worksheet \<Rightarrow> string \<Rightarrow> scalar \<Rightarrow> scalar \<Rightarrow> string" where
  "formula_difference_message sheet1 sheet2 name v1 v2 =
     title sheet1 @ ''!'' @ name @ '' ('' @ str_scalar v1 @ '') != '' @
     title sheet2 @ ''!'' @ name @ '' ('' @ str_scalar v2 @ '')''"

text \<open>
  The nested loops over \<^verbatim>\<open>range(1, rows1 + 1)\<close> and \<^verbatim>\<open>range(1, cols1 + 1)\<close> visit
  the positions \<open>(row, col)\<close> row by row; the loop below runs over that list of positions
  with the dictionary \<^verbatim>\<open>differing_cells\<close> as its state and stops at the first exception.
\<close>

fun compare_cells :: "worksheet \<Rightarrow> worksheet \<Rightarrow> (nat \<times> nat) list \<Rightarrow>
    (string \<times> string list) list \<Rightarrow> error + (string \<times> string list) list" where
  "compare_cells sheet1 sheet2 [] differing_cells = Inr differing_cells"
| "compare_cells sheet1 sheet2 ((row, col) # rest) differing_cells =
     (let v1 = cell_value (cell sheet1 row col);
          v2 = cell_value (cell sheet2 row col)
      in if is_formula v1 \<and> is_formula v2 then
           (if v1 \<noteq> v2 then
              (case cell_name col row of
                 Inl e \<Rightarrow> Inl e
               | Inr name \<Rightarrow>
                   compare_cells sheet1 sheet2 rest
                     (list_extend_at
                        (if \<not> dict_has differing_cells name
                         then dict_set differing_cells name [] else differing_cells)
                        name [formula_difference_message sheet1 sheet2 name v1 v2]))
            else compare_cells sheet1 sheet2 rest differing_cells)
         else compare_cells sheet1 sheet2 rest differing_cells)"

definition dimension_message :: "worksheet \<Rightarrow> worksheet \<Rightarrow> string" where
  "dimension_message sheet1 sheet2 =
     ''Sheets have different dimensions: '' @ quote (title sheet1) @ '' has '' @
     str_nat (max_row sheet1) @ '' rows & '' @ str_nat (max_column sheet1) @ '' columns, '' @
     quote (title sheet2) @ '' has '' @ str_nat (max_row sheet2) @ '' rows & '' @
     str_nat (max_column sheet2) @ '' columns.''"

definition compare_formulas :: "worksheet \<Rightarrow> worksheet \<Rightarrow> error + comparison_result" where
  "compare_formulas sheet1 sheet2 =
     (let rows1 = max_row sheet1; cols1 = max_column sheet1;
          rows2 = max_row sheet2; cols2 = max_column sheet2
      in if (rows1, cols1) \<noteq> (rows2, cols2) then
           Inr \<lparr>status = ''Error'',
                description = dimension_message sheet1 sheet2,
                errors = []\<rparr>
         else
           (case compare_cells sheet1 sheet2 (List.product (range1 rows1) (range1 cols1)) [] of
              Inl e \<Rightarrow> Inl e
            | Inr differing_cells \<Rightarrow>
                if differing_cells \<noteq> [] then
                  Inr \<lparr>status = ''Error'',
                       description = ''Found formula differences'',
                       errors = differing_cells\<rparr>
                else
                  Inr \<lparr>status = ''Ok'',
                       description = ''All formulas are equivalent'',
                       errors = []\<rparr>))"

subsection \<open>Formula-error scanner\<close>

text \<open>
  \<^verbatim>\<open>sheet.iter_rows()\<close> yields the rows 1 to \<^verbatim>\<open>max_row\<close>, each over the columns
  1 to \<^verbatim>\<open>max_column\<close>; \<^verbatim>\<open>cell.row\<close> and \<^verbatim>\<open>cell.column\<close> are the position.
\<close>

fun is_str_scalar :: "scalar \<Rightarrow> bool" where
  "is_str_scalar (SStr s) = True"
| "is_str_scalar _ = False"

fun scan_cells :: "worksheet \<Rightarrow> (nat \<times> nat) list \<Rightarrow>
    (string \<times> string list) list \<Rightarrow> error + (string \<times> string list) list" where
  "scan_cells sheet [] error_details = Inr error_details"
| "scan_cells sheet ((row, col) # rest) error_details =
     (let c = cell sheet row col
      in if data_type c = ''e'' then
           (if is_str_scalar (cell_value c) then
              (case cell_name col row of
                 Inl e \<Rightarrow> Inl e
               | Inr name \<Rightarrow>
                   scan_cells sheet rest
                     (list_extend_at
                        (if \<not> dict_has error_details (str_scalar (cell_value c))
                         then dict_set error_details (str_scalar (cell_value c)) []
                         else error_details)
                        (str_scalar (cell_value c)) [name]))
            else scan_cells sheet rest error_details)
         else scan_cells sheet rest error_details)"

definition check_formula_errors :: "worksheet \<Rightarrow> error + comparison_result" where
  "check_formula_errors sheet =
     (case scan_cells sheet (List.product (range1 (max_row sheet)) (range1 (max_column sheet))) [] of
        Inl e \<Rightarrow> Inl e
      | Inr error_details \<Rightarrow>
          if error_details = [] then
            Inr \<lparr>status = ''Ok'', description = ''No errors found'', errors = []\<rparr>
          else
            Inr \<lparr>status = ''Error'', description = ''Found errors'', errors = error_details\<rparr>)"

section \<open>Event normalizer\<close>

text \<open>
  \<^verbatim>\<open>uuid.uuid4().hex\<close> draws a fresh random token. The source of randomness is a state:
  the sequence of tokens it will hand out and how many it has handed out so far. Every
  function that creates events takes this state and returns it updated. Logging is the
  only other effect of the module; it is not modelled.
\<close>

record rng =
  draws :: "nat \<Rightarrow> string"
  drawn :: nat

definition uuid4_hex :: "rng \<Rightarrow> string \<times> rng" where
  "uuid4_hex g = (draws g (drawn g), g\<lparr>drawn := drawn g + 1\<rparr>)"

text \<open>
  A row of the output table. \<open>Cell_Reference\<close> is \<open>None\<close> in the rows that have no such
  key. A \<^verbatim>\<open>pandas.DataFrame\<close> built from a list of rows is that list.
\<close>

record event =
  Event_Id :: string
  Sheet_Cd :: pyobj
  Cell_Reference :: "pyobj option"
  Rule_Cd :: pyobj
  Error_Category :: pyobj
  Error_Severity_Cd :: pyobj
  Error_Desc :: pyobj

type_synonym dataframe = "event list"

text \<open>
  The four context namedtuples, and any other object passed where a context is expected.
  \<open>MissingSheetContext\<close> has the fields \<^verbatim>\<open>Rule_Cd, Error_Category, Error_Severity_Cd\<close>;
  the other three have \<^verbatim>\<open>Rule_Cd, Sheet_Cd, Error_Category, Error_Severity_Cd\<close>.
\<close>

datatype event_context =
    MissingSheetContext pyobj pyobj pyobj
  | FormulaErrorSheetContext pyobj pyobj pyobj pyobj
  | StructureDiscrepancyContext pyobj pyobj pyobj pyobj
  | FormulaDifferencesContext pyobj pyobj pyobj pyobj
  | OtherObject pyobj

text \<open>A comparator's result dictionary as the object the normalizers receive.\<close>

definition result_obj :: "comparison_result \<Rightarrow> pyobj" where
  "result_obj r =
     PDict [(''status'', PStr (status r)),
            (''description'', PStr (description r)),
            (''errors'', PDict (map (\<lambda>(k, vs). (k, PList (map PStr vs))) (errors r)))]"

text \<open>\<^verbatim>\<open>d.get(k, default)\<close> on a dictionary.\<close>

definition dict_get :: "(string \<times> pyobj) list \<Rightarrow> string \<Rightarrow> pyobj \<Rightarrow> pyobj" where
  "dict_get d k dflt = (case map_of d k of None \<Rightarrow> dflt | Some v \<Rightarrow> v)"

subsection \<open>Missing sheets\<close>

fun create_missing_sheet_row :: "pyobj \<Rightarrow> event_context \<Rightarrow> rng \<Rightarrow> error + (event \<times> rng)" where
  "create_missing_sheet_row sheet (MissingSheetContext rule_cd error_category error_severity_cd) g =
     (if \<not> is_str sheet \<or> \<not> truthy sheet then Inl ValueError
      else if \<not> truthy rule_cd \<or> \<not> is_str rule_cd then Inl ValueError
      else if \<not> truthy error_category \<or> \<not> is_str error_category then Inl ValueError
      else if \<not> truthy error_severity_cd \<or> \<not> is_str error_severity_cd then Inl ValueError
      else (case uuid4_hex g of (eventid, g') \<Rightarrow>
              Inr (\<lparr>Event_Id = eventid,
                    Sheet_Cd = sheet,
                    Cell_Reference = None,
                    Rule_Cd = rule_cd,
                    Error_Category = error_category,
                    Error_Severity_Cd = error_severity_cd,
                    Error_Desc = PStr ''Missing Sheet''\<rparr>, g')))"
| "create_missing_sheet_row sheet other g = Inl ValueError"

fun missing_sheet_rows :: "pyobj list \<Rightarrow> event_context \<Rightarrow> rng \<Rightarrow> event list \<Rightarrow>
    error + (dataframe \<times> rng)" where
  "missing_sheet_rows [] ctx g rows = Inr (rows, g)"
| "missing_sheet_rows (sheet # rest) ctx g rows =
     (if \<not> is_str sheet \<or> \<not> truthy sheet then Inl ValueError
      else (case create_missing_sheet_row sheet ctx g of
              Inl e \<Rightarrow> Inl e
            | Inr (row, g') \<Rightarrow> missing_sheet_rows rest ctx g' (rows @ [row])))"

fun is_missing_sheet_context :: "event_context \<Rightarrow> bool" where
  "is_missing_sheet_context (MissingSheetContext a b c) = True"
| "is_missing_sheet_context _ = False"

fun create_dataframe_missing_sheets :: "pyobj \<Rightarrow> event_context \<Rightarrow> rng \<Rightarrow> error + (dataframe \<times> rng)" where
  "create_dataframe_missing_sheets (PDict input_data) ctx g =
     (if \<not> is_missing_sheet_context ctx then Inl ValueError
      else (case dict_get input_data ''errors'' (PDict []) of
              PDict errs \<Rightarrow>
                (case dict_get errs ''Missing In Spreadsheet 2'' (PList []) of
                   PList missing_sheets \<Rightarrow> missing_sheet_rows missing_sheets ctx g []
                 | _ \<Rightarrow> missing_sheet_rows [] ctx g [])
            | _ \<Rightarrow> Inl AttributeError))"
| "create_dataframe_missing_sheets other ctx g = Inl ValueError"

definition find_missing_sheets :: "workbook \<Rightarrow> workbook \<Rightarrow> rng \<Rightarrow> error + (dataframe \<times> rng)" where
  "find_missing_sheets wb_template wb_company g =
     (let a = validate_tabs_between_spreadsheets wb_template wb_company;
          missing_sheet_context =
            MissingSheetContext (PStr ''?'') (PStr ''Missing Sheet'') (PStr ''soft'')
      in create_dataframe_missing_sheets (result_obj a) missing_sheet_context g)"

subsection \<open>Formula errors\<close>

fun validate_input_data :: "pyobj \<Rightarrow> event_context \<Rightarrow> error + unit" where
  "validate_input_data (PDict input_data) (FormulaErrorSheetContext rule_cd sheet_cd category severity) =
     (if list_ex (\<lambda>i. i = PNone) [rule_cd, sheet_cd, category, severity]
      then Inl ValueError else Inr ())"
| "validate_input_data (PDict input_data) other = Inl ValueError"
| "validate_input_data other ctx = Inl ValueError"

text \<open>Only the entries whose value is a list are kept.\<close>

fun list_entries :: "(string \<times> pyobj) list \<Rightarrow> (string \<times> pyobj list) list" where
  "list_entries [] = []"
| "list_entries ((error_type, PList cells) # rest) = (error_type, cells) # list_entries rest"
| "list_entries ((error_type, other) # rest) = list_entries rest"

fun extract_error_rows :: "pyobj \<Rightarrow> error + (string \<times> pyobj list) list" where
  "extract_error_rows (PDict input_data) =
     (case dict_get input_data ''errors'' (PDict []) of
        PDict errs \<Rightarrow> Inr (list_entries errs)
      | _ \<Rightarrow> Inl ValueError)"
| "extract_error_rows other = Inl AttributeError"

text \<open>
  \<open>create_row_for_error\<close> reads \<^verbatim>\<open>Rule_Cd\<close>, \<^verbatim>\<open>Error_Category\<close> and
  \<^verbatim>\<open>Error_Severity_Cd\<close> of its context, which every context tuple has.
\<close>

fun context_fields :: "event_context \<Rightarrow> (pyobj \<times> pyobj \<times> pyobj) option" where
  "context_fields (MissingSheetContext r c s) = Some (r, c, s)"
| "context_fields (FormulaErrorSheetContext r sh c s) = Some (r, c, s)"
| "context_fields (StructureDiscrepancyContext r sh c s) = Some (r, c, s)"
| "context_fields (FormulaDifferencesContext r sh c s) = Some (r, c, s)"
| "context_fields (OtherObject x) = None"

definition create_row_for_error :: "pyobj \<Rightarrow> string \<Rightarrow> pyobj \<Rightarrow> event_context \<Rightarrow> rng \<Rightarrow>
    error + (event \<times> rng)" where
  "create_row_for_error sheet_cd error_type c ctx g =
     (case uuid4_hex g of (eventid, g') \<Rightarrow>
        (case context_fields ctx of
           None \<Rightarrow> Inl AttributeError
         | Some (rule_cd, category, severity) \<Rightarrow>
             Inr (\<lparr>Event_Id = eventid,
                   Sheet_Cd = sheet_cd,
                   Cell_Reference = Some c,
                   Rule_Cd = rule_cd,
                   Error_Category = category,
                   Error_Severity_Cd = severity,
                   Error_Desc = PStr error_type\<rparr>, g')))"

fun rows_for_cells :: "pyobj \<Rightarrow> string \<Rightarrow> pyobj list \<Rightarrow> event_context \<Rightarrow> rng \<Rightarrow> event list \<Rightarrow>
    error + (event list \<times> rng)" where
  "rows_for_cells sheet_cd error_type [] ctx g rows = Inr (rows, g)"
| "rows_for_cells sheet_cd error_type (c # cells) ctx g rows =
     (case create_row_for_error sheet_cd error_type c ctx g of
        Inl e \<Rightarrow> Inl e
      | Inr (row, g') \<Rightarrow> rows_for_cells sheet_cd error_type cells ctx g' (rows @ [row]))"

fun rows_for_errors :: "pyobj \<Rightarrow> (string \<times> pyobj list) list \<Rightarrow> event_context \<Rightarrow> rng \<Rightarrow>
    event list \<Rightarrow> error + (event list \<times> rng)" where
  "rows_for_errors sheet_cd [] ctx g rows = Inr (rows, g)"
| "rows_for_errors sheet_cd ((error_type, cells) # rest) ctx g rows =
     (case rows_for_cells sheet_cd error_type cells ctx g rows of
        Inl e \<Rightarrow> Inl e
      | Inr (rows', g') \<Rightarrow> rows_for_errors sheet_cd rest ctx g' rows')"

text \<open>\<^verbatim>\<open>context.Sheet_Cd\<close> is read once per row; a context without it cannot pass the validation.\<close>

definition create_dataframe_formula_errors :: "pyobj \<Rightarrow> event_context \<Rightarrow> rng \<Rightarrow>
    error + (dataframe \<times> rng)" where
  "create_dataframe_formula_errors input_data ctx g =
     (case validate_input_data input_data ctx of
        Inl e \<Rightarrow> Inl e
      | Inr u \<Rightarrow>
          (case extract_error_rows input_data of
             Inl e \<Rightarrow> Inl e
           | Inr error_rows \<Rightarrow>
               (case ctx of
                  FormulaErrorSheetContext rule_cd sheet_cd category severity \<Rightarrow>
                    rows_for_errors sheet_cd error_rows ctx g []
                | _ \<Rightarrow> Inl AttributeError)))"

text \<open>
  \<^verbatim>\<open>pd.concat(frames, ignore_index=True)\<close> raises \<^verbatim>\<open>ValueError\<close>
  ("No objects to concatenate") on an empty list of frames.
\<close>

definition pd_concat :: "dataframe list \<Rightarrow> error + dataframe" where
  "pd_concat frames = (if frames = [] then Inl ValueError else Inr (concat frames))"

fun formula_error_frames :: "workbook \<Rightarrow> string list \<Rightarrow> rng \<Rightarrow> dataframe list \<Rightarrow>
    error + (dataframe list \<times> rng)" where
  "formula_error_frames wb [] g frames = Inr (frames, g)"
| "formula_error_frames wb (sheetname # rest) g frames =
     (case wb_getitem wb sheetname of
        Inl e \<Rightarrow> Inl e
      | Inr sheet \<Rightarrow>
          (case check_formula_errors sheet of
             Inl e \<Rightarrow> Inl e
           | Inr formula_errors \<Rightarrow>
               (case create_dataframe_formula_errors (result_obj formula_errors)
                       (FormulaErrorSheetContext (PStr ''?'') (PStr sheetname)
                          (PStr ''Formula Error'') (PStr ''hard'')) g of
                  Inl e \<Rightarrow> Inl e
                | Inr (sheet_error_df, g') \<Rightarrow>
                    formula_error_frames wb rest g' (frames @ [sheet_error_df]))))"

definition find_formula_errors :: "workbook \<Rightarrow> rng \<Rightarrow> error + (dataframe \<times> rng)" where
  "find_formula_errors wb g =
     (case formula_error_frames wb (sheetnames wb) g [] of
        Inl e \<Rightarrow> Inl e
      | Inr (all_formula_error_dfs, g') \<Rightarrow>
          (case pd_concat all_formula_error_dfs of
             Inl e \<Rightarrow> Inl e
           | Inr final_formula_error_df \<Rightarrow> Inr (final_formula_error_df, g')))"

subsection \<open>Structure discrepancies\<close>

fun str_opt :: "pyobj \<Rightarrow> string option" where
  "str_opt (PStr s) = Some s"
| "str_opt _ = None"

text \<open>
  The loop over \<^verbatim>\<open>input_data['errors'].items()\<close>: a value that is not a list of
  strings raises, anything else gives one row whose description joins the details.
\<close>

fun structure_rows :: "(string \<times> pyobj) list \<Rightarrow> pyobj \<Rightarrow> pyobj \<Rightarrow> pyobj \<Rightarrow> pyobj \<Rightarrow> rng \<Rightarrow>
    event list \<Rightarrow> error + (event list \<times> rng)" where
  "structure_rows [] rule_cd sheet_cd error_category error_severity_cd g rows = Inr (rows, g)"
| "structure_rows ((errortype, discrepancy) # rest) rule_cd sheet_cd error_category
      error_severity_cd g rows =
     (case discrepancy of
        PList ds \<Rightarrow>
          (case those (map str_opt ds) of
             None \<Rightarrow> Inl ValueError
           | Some details \<Rightarrow>
               (case uuid4_hex g of (eventid, g') \<Rightarrow>
                  structure_rows rest rule_cd sheet_cd error_category error_severity_cd g'
                    (rows @ [\<lparr>Event_Id = eventid,
                               Sheet_Cd = sheet_cd,
                               Cell_Reference = None,
                               Rule_Cd = rule_cd,
                               Error_Category = error_category,
                               Error_Severity_Cd = error_severity_cd,
                               Error_Desc = PStr (join '' -- '' details)\<rparr>])))
      | _ \<Rightarrow> Inl ValueError)"


fun create_dataframe_structure_discrepancies :: "pyobj \<Rightarrow> event_context \<Rightarrow> rng \<Rightarrow>
    error + (dataframe \<times> rng)" where
  "create_dataframe_structure_discrepancies (PDict input_data)
      (StructureDiscrepancyContext rule_cd sheet_cd error_category error_severity_cd) g =
     (case map_of input_data ''errors'' of
        Some (PDict errs) \<Rightarrow>
          (if \<not> list_all truthy [rule_cd, error_severity_cd, sheet_cd, error_category]
           then Inl ValueError
           else structure_rows errs rule_cd sheet_cd error_category error_severity_cd g [])
      | _ \<Rightarrow> Inl ValueError)"
| "create_dataframe_structure_discrepancies (PDict input_data) other g = Inl TypeError"
| "create_dataframe_structure_discrepancies other ctx g = Inl TypeError"

text \<open>\<^verbatim>\<open>sheetname.startswith("fOut_")\<close>\<close>

definition startswith :: "string \<Rightarrow> string \<Rightarrow> bool" where
  "startswith s prefix = (take (length prefix) s = prefix)"

fun shape_frames :: "workbook \<Rightarrow> workbook \<Rightarrow> string list \<Rightarrow> rng \<Rightarrow> dataframe list \<Rightarrow>
    error + (dataframe list \<times> rng)" where
  "shape_frames wb_template wb_company [] g frames = Inr (frames, g)"
| "shape_frames wb_template wb_company (sheetname # rest) g frames =
     (let ctx = StructureDiscrepancyContext (PStr ''?'') (PStr sheetname)
                  (PStr ''Structure Discrepancy'') (PStr ''hard'');
          header_row_number = (if startswith sheetname ''fOut_'' then 2 else 0)
      in case wb_getitem wb_template sheetname of
           Inl e \<Rightarrow> Inl e
         | Inr sheet1 \<Rightarrow>
             (case wb_getitem wb_company sheetname of
                Inl e \<Rightarrow> Inl e
              | Inr sheet2 \<Rightarrow>
                  (case create_dataframe_structure_discrepancies
                          (result_obj (check_sheet_structure sheet1 sheet2 header_row_number)) ctx g of
                     Inl e \<Rightarrow> Inl e
                   | Inr (df, g') \<Rightarrow>
                       shape_frames wb_template wb_company rest g' (frames @ [df]))))"

definition find_shape_differences :: "workbook \<Rightarrow> workbook \<Rightarrow> rng \<Rightarrow> error + (dataframe \<times> rng)" where
  "find_shape_differences wb_template wb_company g =
     (let common_sheetnames =
            set_intersection (py_set (sheetnames wb_template)) (py_set (sheetnames wb_company))
      in case shape_frames wb_template wb_company common_sheetnames g [] of
           Inl e \<Rightarrow> Inl e
         | Inr (all_shape_error_dfs, g') \<Rightarrow>
             if all_shape_error_dfs = [] then Inr ([], g')
             else (case pd_concat all_shape_error_dfs of
                     Inl e \<Rightarrow> Inl e
                   | Inr final_shape_error_df \<Rightarrow> Inr (final_shape_error_df, g')))"

subsection \<open>Formula differences\<close>

text \<open>
  \<^verbatim>\<open>" -- ".join(discrepancies)\<close> on an unvalidated value: a list of strings is joined,
  a string is joined character by character, a dictionary by its keys; a list holding
  anything but strings and a value that cannot be iterated raise \<^verbatim>\<open>TypeError\<close>.
\<close>

fun py_join :: "string \<Rightarrow> pyobj \<Rightarrow> error + string" where
  "py_join sep (PList xs) =
     (case those (map str_opt xs) of None \<Rightarrow> Inl TypeError | Some parts \<Rightarrow> Inr (join sep parts))"
| "py_join sep (PStr s) = Inr (join sep (map (\<lambda>c. [c]) s))"
| "py_join sep (PDict d) = Inr (join sep (map fst d))"
| "py_join sep PNone = Inl TypeError"
| "py_join sep (PInt n) = Inl TypeError"

fun difference_rows :: "(string \<times> pyobj) list \<Rightarrow> pyobj \<Rightarrow> pyobj \<Rightarrow> pyobj \<Rightarrow> pyobj \<Rightarrow> rng \<Rightarrow>
    event list \<Rightarrow> error + (event list \<times> rng)" where
  "difference_rows [] rule_cd sheet_cd error_category error_severity_cd g rows = Inr (rows, g)"
| "difference_rows ((cellreference, discrepancies) # rest) rule_cd sheet_cd error_category
      error_severity_cd g rows =
     (case uuid4_hex g of (eventid, g') \<Rightarrow>
        (case py_join '' -- '' discrepancies of
           Inl e \<Rightarrow> Inl e
         | Inr desc \<Rightarrow>
             difference_rows rest rule_cd sheet_cd error_category error_severity_cd g'
               (rows @ [\<lparr>Event_Id = eventid,
                          Sheet_Cd = sheet_cd,
                          Cell_Reference = Some (PStr cellreference),
                          Rule_Cd = rule_cd,
                          Error_Category = error_category,
                          Error_Severity_Cd = error_severity_cd,
                          Error_Desc = PStr desc\<rparr>])))"

fun create_dataframe_formula_differences :: "pyobj \<Rightarrow> event_context \<Rightarrow> rng \<Rightarrow>
    error + (dataframe \<times> rng)" where
  "create_dataframe_formula_differences (PDict input_data)
      (FormulaDifferencesContext rule_cd sheet_cd error_category error_severity_cd) g =
     (if \<not> list_all truthy [rule_cd, error_severity_cd, sheet_cd, error_category]
      then Inl ValueError
      else (case dict_get input_data ''errors'' (PDict []) of
              PDict errs \<Rightarrow>
                difference_rows errs rule_cd sheet_cd error_category error_severity_cd g []
            | _ \<Rightarrow> Inl AttributeError))"
| "create_dataframe_formula_differences (PDict input_data) other g = Inl ValueError"
| "create_dataframe_formula_differences other ctx g = Inl ValueError"

fun difference_frames :: "workbook \<Rightarrow> workbook \<Rightarrow> string list \<Rightarrow> rng \<Rightarrow> dataframe list \<Rightarrow>
    error + (dataframe list \<times> rng)" where
  "difference_frames wb_template wb_company [] g frames = Inr (frames, g)"
| "difference_frames wb_template wb_company (sheetcd # rest) g frames =
     (let ctx = FormulaDifferencesContext (PStr ''?'') (PStr sheetcd)
                  (PStr ''Formula Difference'') (PStr ''hard'')
      in case wb_getitem wb_template sheetcd of
           Inl e \<Rightarrow> Inl e
         | Inr sheet1 \<Rightarrow>
             (case wb_getitem wb_company sheetcd of
                Inl e \<Rightarrow> Inl e
              | Inr sheet2 \<Rightarrow>
                  (case compare_formulas sheet1 sheet2 of
                     Inl e \<Rightarrow> Inl e
                   | Inr a \<Rightarrow>
                       (case create_dataframe_formula_differences (result_obj a) ctx g of
                          Inl e \<Rightarrow> Inl e
                        | Inr (df, g') \<Rightarrow>
                            difference_frames wb_template wb_company rest g' (frames @ [df])))))"

definition find_formula_differences :: "workbook \<Rightarrow> workbook \<Rightarrow> rng \<Rightarrow> error + (dataframe \<times> rng)" where
  "find_formula_differences wb_template wb_company g =
     (let common_sheetnames =
            set_intersection (py_set (sheetnames wb_template)) (py_set (sheetnames wb_company))
      in case difference_frames wb_template wb_company common_sheetnames g [] of
           Inl e \<Rightarrow> Inl e
         | Inr (all_formula_difference_dfs, g') \<Rightarrow>
             (case pd_concat all_formula_difference_dfs of
                Inl e \<Rightarrow> Inl e
              | Inr final_formula_difference_df \<Rightarrow> Inr (final_formula_difference_df, g')))"

section \<open>Duplicate-description checker\<close>

text \<open>
  Modelled from the spec: \<^verbatim>\<open>create_same_desc_diff_boncode_validation_event\<close> is
  imported by the test module from \<^verbatim>\<open>dqchecks.panacea\<close>, but the source of that
  module does not contain it; the definitions of this section follow section 4.7 of the
  specification and the test module. The input table has a list of column names and
  one record per row; the batch metadata is a dictionary of strings.
\<close>

record measure_record =
  measure_cd :: string
  measure_desc :: string
  sheet_cd :: string

record measure_table =
  table_columns :: "string list"
  table_rows :: "measure_record list"

record description_event =
  event_id :: string
  event_metadata :: "(string \<times> string) list"
  error_desc :: string

text \<open>Modelled from the spec: the distinct elements of a list in first-seen order.\<close>

fun first_seen :: "'a list \<Rightarrow> 'a list" where
  "first_seen [] = []"
| "first_seen (x # xs) = x # first_seen (filter (\<lambda>y. y \<noteq> x) xs)"

text \<open>Modelled from the spec: the required columns of the input table.\<close>

definition required_columns :: "string list" where
  "required_columns = [''Measure_Cd'', ''Measure_Desc'', ''Sheet_Cd'']"

text \<open>Modelled from the spec: the records of one description, in table order.\<close>

definition desc_group :: "measure_record list \<Rightarrow> string \<Rightarrow> measure_record list" where
  "desc_group rows d = filter (\<lambda>r. measure_desc r = d) rows"

text \<open>
  Modelled from the spec: the description of an event lists every
  \<open>(Measure_Cd, Sheet_Cd)\<close> pair of the group, joined by \<^verbatim>\<open>" -- "\<close>, in first-seen order.
\<close>

definition pairs_description :: "measure_record list \<Rightarrow> string" where
  "pairs_description grp =
     join '' -- '' (concat (map (\<lambda>(c, s). [c, s])
                              (first_seen (map (\<lambda>r. (measure_cd r, sheet_cd r)) grp))))"

text \<open>
  Modelled from the spec: one pass over the descriptions in first-seen order; a group
  with more than one distinct code gives one event with a fresh identifier.
\<close>

fun description_events :: "string list \<Rightarrow> measure_record list \<Rightarrow> (string \<times> string) list \<Rightarrow> rng \<Rightarrow>
    description_event list \<Rightarrow> description_event list \<times> rng" where
  "description_events [] rows metadata g evs = (evs, g)"
| "description_events (d # ds) rows metadata g evs =
     (if 1 < length (first_seen (map measure_cd (desc_group rows d))) then
        (case uuid4_hex g of (eventid, g') \<Rightarrow>
           description_events ds rows metadata g'
             (evs @ [\<lparr>event_id = eventid,
                      event_metadata = metadata,
                      error_desc = pairs_description (desc_group rows d)\<rparr>]))
      else description_events ds rows metadata g evs)"

text \<open>
  Modelled from the spec: the checker fails with \<^verbatim>\<open>ValueError\<close> ("Missing required
  columns") when a required column is absent, and otherwise returns the events of the
  groups that have more than one distinct code.
\<close>

definition create_same_desc_diff_boncode_validation_event ::
    "measure_table \<Rightarrow> (string \<times> string) list \<Rightarrow> rng \<Rightarrow> error + (description_event list \<times> rng)" where
  "create_same_desc_diff_boncode_validation_event df metadata g =
     (if \<not> list_all (\<lambda>c. c \<in> set (table_columns df)) required_columns then Inl ValueError
      else Inr (description_events (first_seen (map measure_desc (table_rows df)))
                  (table_rows df) metadata g []))"

section \<open>Notions of the specification\<close>

text \<open>
  The reference of a cell, column letters followed by the row number, as a total
  function; \<open>cell_name\<close> returns it for every column the library can name.
\<close>

definition cell_ref :: "nat \<Rightarrow> nat \<Rightarrow> string" where
  "cell_ref col row = column_letters col @ str_nat row"

text \<open>The positions of a sheet, row by row.\<close>

definition positions :: "worksheet \<Rightarrow> (nat \<times> nat) list" where
  "positions sheet = List.product (range1 (max_row sheet)) (range1 (max_column sheet))"

text \<open>
  Both cells at a position hold text beginning with \<^verbatim>\<open>=\<close>, and the two texts differ.
\<close>

definition formulas_differ :: "worksheet \<Rightarrow> worksheet \<Rightarrow> nat \<Rightarrow> nat \<Rightarrow> bool" where
  "formulas_differ sheet1 sheet2 row col =
     (is_formula (cell_value (cell sheet1 row col)) \<and>
      is_formula (cell_value (cell sheet2 row col)) \<and>
      cell_value (cell sheet1 row col) \<noteq> cell_value (cell sheet2 row col))"



text \<open>The entry the formula comparator records for a position whose formulas differ.\<close>

definition difference_entry :: "worksheet \<Rightarrow> worksheet \<Rightarrow> nat \<times> nat \<Rightarrow> string \<times> string list" where
  "difference_entry sheet1 sheet2 p =
     (case p of (row, col) \<Rightarrow>
        (cell_ref col row,
         [formula_difference_message sheet1 sheet2 (cell_ref col row)
            (cell_value (cell sheet1 row col)) (cell_value (cell sheet2 row col))]))"

text \<open>
  The header mismatches the structure comparator reports: one message for each column,
  up to the smaller of the two used-column counts, at which the header cells differ.
\<close>

definition header_mismatches :: "worksheet \<Rightarrow> worksheet \<Rightarrow> int \<Rightarrow> string list" where
  "header_mismatches sheet1 sheet2 header_row_number =
     map (\<lambda>c. header_mismatch_message
                 (c, cell_value (cell sheet1 (nat header_row_number) c),
                     cell_value (cell sheet2 (nat header_row_number) c)))
       (filter (\<lambda>c. cell_value (cell sheet1 (nat header_row_number) c) \<noteq>
                     cell_value (cell sheet2 (nat header_row_number) c))
          (range1 (min (last_used_column (get_used_area sheet1))
                       (last_used_column (get_used_area sheet2)))))"

section \<open>Example inputs\<close>

text \<open>
  A template sheet and a company sheet of two rows and two columns. A1 holds different
  formulas, B1 a text in the template and a formula in the company sheet, A2 the same
  number in both, and B2 is empty.
\<close>

definition template_sheet :: worksheet where
  "template_sheet =
     \<lparr>title = ''fOut_A'', max_row = 2, max_column = 2,
      cell = (\<lambda>row col.
        if row = 1 \<and> col = 1 then \<lparr>cell_value = SStr ''=A2+1'', data_type = ''f''\<rparr>
        else if row = 1 \<and> col = 2 then \<lparr>cell_value = SStr ''Total'', data_type = ''s''\<rparr>
        else if row = 2 \<and> col = 1 then \<lparr>cell_value = SNum 5, data_type = ''n''\<rparr>
        else \<lparr>cell_value = SNone, data_type = ''n''\<rparr>)\<rparr>"

definition company_sheet :: worksheet where
  "company_sheet =
     \<lparr>title = ''fOut_A'', max_row = 2, max_column = 2,
      cell = (\<lambda>row col.
        if row = 1 \<and> col = 1 then \<lparr>cell_value = SStr ''=A2+2'', data_type = ''f''\<rparr>
        else if row = 1 \<and> col = 2 then \<lparr>cell_value = SStr ''=B2'', data_type = ''f''\<rparr>
        else if row = 2 \<and> col = 1 then \<lparr>cell_value = SNum 5, data_type = ''n''\<rparr>
        else \<lparr>cell_value = SNone, data_type = ''n''\<rparr>)\<rparr>"

text \<open>
  A sheet of three rows and two columns whose only content is the evaluated error
  \<^verbatim>\<open>#DIV/0!\<close> in B3.
\<close>

definition error_sheet :: worksheet where
  "error_sheet =
     \<lparr>title = ''Data'', max_row = 3, max_column = 2,
      cell = (\<lambda>row col.
        if row = 3 \<and> col = 2 then \<lparr>cell_value = SStr ''#DIV/0!'', data_type = ''e''\<rparr>
        else \<lparr>cell_value = SNone, data_type = ''n''\<rparr>)\<rparr>"


text \<open>The sheet openpyxl gives a new, empty worksheet: one row, one column, no value.\<close>

definition blank_sheet :: worksheet where
  "blank_sheet =
     \<lparr>title = ''Sheet'', max_row = 1, max_column = 1,
      cell = (\<lambda>row col. \<lparr>cell_value = SNone, data_type = ''n''\<rparr>)\<rparr>"

text \<open>A sheet of three rows and two columns in which no cell has a value.\<close>

definition empty_grid_sheet :: worksheet where
  "empty_grid_sheet =
     \<lparr>title = ''Sheet'', max_row = 3, max_column = 2,
      cell = (\<lambda>row col. \<lparr>cell_value = SNone, data_type = ''n''\<rparr>)\<rparr>"

text \<open>
  A sheet of four rows and three columns with values in A1 and B2 only: two empty rows
  at the bottom and one empty column on the right.
\<close>

definition padded_sheet :: worksheet where
  "padded_sheet =
     \<lparr>title = ''Sheet'', max_row = 4, max_column = 3,
      cell = (\<lambda>row col.
        if row = 1 \<and> col = 1 then \<lparr>cell_value = SStr ''Name'', data_type = ''s''\<rparr>
        else if row = 2 \<and> col = 2 then \<lparr>cell_value = SNum 7, data_type = ''n''\<rparr>
        else \<lparr>cell_value = SNone, data_type = ''n''\<rparr>)\<rparr>"

text \<open>
  Three workbooks: a template with the sheets \<^verbatim>\<open>fOut_A\<close> and \<^verbatim>\<open>Data\<close>, a company
  workbook with the sheet \<^verbatim>\<open>fOut_A\<close> only, and a workbook whose only sheet
  \<^verbatim>\<open>Sheet\<close> is in neither of them.
\<close>

definition template_workbook :: workbook where
  "template_workbook = [template_sheet, error_sheet]"

definition company_workbook :: workbook where
  "company_workbook = [company_sheet]"

definition other_workbook :: workbook where
  "other_workbook = [blank_sheet]"

text \<open>A source of identifiers for the examples: the n-th token is the decimal numeral of n.\<close>

definition example_rng :: rng where
  "example_rng = \<lparr>draws = str_nat, drawn = 0\<rparr>"

text \<open>A sheet of one row and three columns holding the header Name, Qty, Extra.\<close>

definition wide_sheet :: worksheet where
  "wide_sheet =
     \<lparr>title = ''Sheet'', max_row = 1, max_column = 3,
      cell = (\<lambda>row col.
        if row = 1 \<and> col = 1 then \<lparr>cell_value = SStr ''Name'', data_type = ''s''\<rparr>
        else if row = 1 \<and> col = 2 then \<lparr>cell_value = SStr ''Qty'', data_type = ''s''\<rparr>
        else if row = 1 \<and> col = 3 then \<lparr>cell_value = SStr ''Extra'', data_type = ''s''\<rparr>
        else \<lparr>cell_value = SNone, data_type = ''n''\<rparr>)\<rparr>"

text \<open>
  The table and the metadata of the test
  \<^verbatim>\<open>test_returns_validation_event_when_duplicates_found\<close>: the description
  \<^verbatim>\<open>desc1\<close> has the codes A1 and A2, the description \<^verbatim>\<open>desc2\<close> the code B1 only.
\<close>

definition duplicates_table :: measure_table where
  "duplicates_table =
     \<lparr>table_columns = [''Measure_Cd'', ''Measure_Desc'', ''Sheet_Cd''],
      table_rows =
        [\<lparr>measure_cd = ''A1'', measure_desc = ''desc1'', sheet_cd = ''sheet1''\<rparr>,
         \<lparr>measure_cd = ''A2'', measure_desc = ''desc1'', sheet_cd = ''sheet2''\<rparr>,
         \<lparr>measure_cd = ''B1'', measure_desc = ''desc2'', sheet_cd = ''sheet3''\<rparr>]\<rparr>"

definition batch_metadata :: "(string \<times> string) list" where
  "batch_metadata =
     [(''Batch_Id'', ''batch1''), (''Submission_Period_Cd'', ''202301''),
      (''Process_Cd'', ''proc1''), (''Template_Version'', ''v1''),
      (''Organisation_Cd'', ''org1'')]"

text \<open>
  Two sheets of one row and 18279 columns whose only content is a formula in the last
  column, a different one in each sheet.
\<close>

definition far_template_sheet :: worksheet where
  "far_template_sheet =
     \<lparr>title = ''Sheet'', max_row = 1, max_column = 18279,
      cell = (\<lambda>row col.
        if row = 1 \<and> col = 18279 then \<lparr>cell_value = SStr ''=A1+1'', data_type = ''f''\<rparr>
        else \<lparr>cell_value = SNone, data_type = ''n''\<rparr>)\<rparr>"

definition far_company_sheet :: worksheet where
  "far_company_sheet =
     \<lparr>title = ''Sheet'', max_row = 1, max_column = 18279,
      cell = (\<lambda>row col.
        if row = 1 \<and> col = 18279 then \<lparr>cell_value = SStr ''=A1+2'', data_type = ''f''\<rparr>
        else \<lparr>cell_value = SNone, data_type = ''n''\<rparr>)\<rparr>"

section \<open>Cell references\<close>

text \<open>
  Decimal digits and column letters use disjoint alphabets, and both renderings are
  injective; hence a cell reference determines its position.
\<close>

lemma digit_char: "d < 10 \<Longrightarrow> (of_char (char_of (48 + d :: nat)) :: nat) = 48 + d"
proof -
  assume "d < 10"
  then have "(48 + d) mod 256 = 48 + d" by simp
  then show ?thesis by (simp only: of_char_of)
qed

lemma letter_char: "d \<le> 26 \<Longrightarrow> (of_char (char_of (d + 64 :: nat)) :: nat) = d + 64"
proof -
  assume "d \<le> 26"
  then have "(d + 64) mod 256 = d + 64" by simp
  then show ?thesis by (simp only: of_char_of)
qed

lemma str_nat_small: "n < 10 \<Longrightarrow> str_nat n = [char_of (48 + n)]"
  by (subst str_nat.simps) simp

lemma str_nat_big: "\<not> n < 10 \<Longrightarrow> str_nat n = str_nat (n div 10) @ [char_of (48 + n mod 10)]"
  by (subst str_nat.simps) simp

lemma column_letters_0: "column_letters 0 = []"
  by (subst column_letters.simps) simp

lemma column_letters_Z:
  "n \<noteq> 0 \<Longrightarrow> n mod 26 = 0 \<Longrightarrow> column_letters n = column_letters (n div 26 - 1) @ [char_of (26 + 64 :: nat)]"
  by (subst column_letters.simps) simp

lemma column_letters_other:
  "n \<noteq> 0 \<Longrightarrow> n mod 26 \<noteq> 0 \<Longrightarrow> column_letters n = column_letters (n div 26) @ [char_of (n mod 26 + 64)]"
  by (subst column_letters.simps) simp


lemma str_nat_digits: "c \<in> set (str_nat n) \<Longrightarrow> 48 \<le> (of_char c :: nat) \<and> (of_char c :: nat) \<le> 57"
proof (induction n arbitrary: c rule: str_nat.induct)
  case (1 n)
  show ?case
  proof (cases "n < 10")
    case True
    from "1.prems" have "c = char_of (48 + n)"
      by (simp only: str_nat_small[OF True] set_simps insert_iff empty_iff simp_thms)
    then have "(of_char c :: nat) = 48 + n" using digit_char[OF True] by (simp only:)
    with True show ?thesis by linarith
  next
    case False
    from "1.prems" have "c \<in> set (str_nat (n div 10)) \<or> c = char_of (48 + n mod 10)"
      by (simp only: str_nat_big[OF False] set_append set_simps Un_iff insert_iff empty_iff simp_thms)
    then show ?thesis
    proof
      assume "c \<in> set (str_nat (n div 10))"
      then show ?thesis by (rule "1.IH"[OF False])
    next
      assume c: "c = char_of (48 + n mod 10)"
      have lt: "n mod 10 < 10" by simp
      have "(of_char c :: nat) = 48 + n mod 10" using digit_char[OF lt] c by (simp only:)
      with lt show ?thesis by linarith
    qed
  qed
qed

lemma str_nat_value: "foldl (\<lambda>a c. a * 10 + (of_char c - 48)) (0::nat) (str_nat n) = n"
proof (induction n rule: str_nat.induct)
  case (1 n)
  show ?case
  proof (cases "n < 10")
    case True
    show ?thesis using digit_char[OF True] by (simp only: str_nat_small[OF True] foldl.simps)
  next
    case False
    have lt: "n mod 10 < 10" by simp
    from False "1.IH" have ih: "foldl (\<lambda>a c. a * 10 + (of_char c - 48)) (0::nat) (str_nat (n div 10)) = n div 10"
      by blast
    have "foldl (\<lambda>a c. a * 10 + (of_char c - 48)) (0::nat) (str_nat n)
        = (n div 10) * 10 + (of_char (char_of (48 + n mod 10) :: char) - 48)"
      by (simp only: str_nat_big[OF False] foldl_append foldl.simps ih)
    also have "\<dots> = (n div 10) * 10 + n mod 10" by (simp only: digit_char[OF lt] add_diff_cancel_left')
    also have "\<dots> = n" by (rule div_mult_mod_eq)
    finally show ?thesis .
  qed
qed

lemma str_nat_inj: "str_nat a = str_nat b \<Longrightarrow> a = b"
proof -
  assume e: "str_nat a = str_nat b"
  have "a = foldl (\<lambda>a c. a * 10 + (of_char c - 48)) (0::nat) (str_nat a)"
    by (rule str_nat_value[symmetric])
  also have "\<dots> = foldl (\<lambda>a c. a * 10 + (of_char c - 48)) (0::nat) (str_nat b)"
    by (rule arg_cong[OF e])
  also have "\<dots> = b" by (rule str_nat_value)
  finally show ?thesis .
qed

lemma column_letters_upper:
  "c \<in> set (column_letters n) \<Longrightarrow> 65 \<le> (of_char c :: nat) \<and> (of_char c :: nat) \<le> 90"
proof (induction n arbitrary: c rule: column_letters.induct)
  case (1 n)
  show ?case
  proof (cases "n = 0")
    case True
    with "1.prems" show ?thesis by (simp only: column_letters_0 set_simps empty_iff)
  next
    case nz: False
    show ?thesis
    proof (cases "n mod 26 = 0")
      case True
      from "1.prems" have "c \<in> set (column_letters (n div 26 - 1)) \<or> c = char_of (26 + 64 :: nat)"
        by (simp only: column_letters_Z[OF nz True] set_append set_simps Un_iff insert_iff empty_iff simp_thms)
      then show ?thesis
      proof
        assume "c \<in> set (column_letters (n div 26 - 1))"
        then show ?thesis by (rule "1.IH"(1)[OF nz True])
      next
        assume "c = char_of (26 + 64 :: nat)"
        then have "(of_char c :: nat) = 26 + 64" using letter_char[of 26] by (simp only: le_refl)
        then show ?thesis by linarith
      qed
    next
      case False
      from "1.prems" have "c \<in> set (column_letters (n div 26)) \<or> c = char_of (n mod 26 + 64)"
        by (simp only: column_letters_other[OF nz False] set_append set_simps Un_iff insert_iff empty_iff simp_thms)
      then show ?thesis
      proof
        assume "c \<in> set (column_letters (n div 26))"
        then show ?thesis by (rule "1.IH"(2)[OF nz False])
      next
        assume c: "c = char_of (n mod 26 + 64)"
        have le: "n mod 26 \<le> 26" by (simp add: less_imp_le)
        have "(of_char c :: nat) = n mod 26 + 64" using letter_char[OF le] c by (simp only:)
        with le False show ?thesis by linarith
      qed
    qed
  qed
qed

lemma column_letters_value:
  "foldl (\<lambda>a c. a * 26 + (of_char c - 64)) (0::nat) (column_letters n) = n"
proof (induction n rule: column_letters.induct)
  case (1 n)
  show ?case
  proof (cases "n = 0")
    case True
    then show ?thesis by (simp only: column_letters_0 foldl.simps)
  next
    case nz: False
    show ?thesis
    proof (cases "n mod 26 = 0")
      case True
      with nz "1.IH"(1) have ih: "foldl (\<lambda>a c. a * 26 + (of_char c - 64)) (0::nat) (column_letters (n div 26 - 1)) = n div 26 - 1"
        by blast
      from True have eq: "n = n div 26 * 26" by auto
      with nz have "n div 26 \<noteq> 0" by auto
      with eq have arith: "(n div 26 - 1) * 26 + 26 = n" by (cases "n div 26") auto
      have "foldl (\<lambda>a c. a * 26 + (of_char c - 64)) (0::nat) (column_letters n)
          = (n div 26 - 1) * 26 + (of_char (char_of (26 + 64 :: nat) :: char) - 64)"
        by (simp only: column_letters_Z[OF nz True] foldl_append foldl.simps ih)
      also have "\<dots> = (n div 26 - 1) * 26 + 26" using letter_char[of 26] by (simp only: le_refl)
      finally show ?thesis using arith by (simp only:)
    next
      case False
      with nz "1.IH"(2) have ih: "foldl (\<lambda>a c. a * 26 + (of_char c - 64)) (0::nat) (column_letters (n div 26)) = n div 26"
        by blast
      have le: "n mod 26 \<le> 26" by (simp add: less_imp_le)
      have "foldl (\<lambda>a c. a * 26 + (of_char c - 64)) (0::nat) (column_letters n)
          = (n div 26) * 26 + (of_char (char_of (n mod 26 + 64) :: char) - 64)"
        by (simp only: column_letters_other[OF nz False] foldl_append foldl.simps ih)
      also have "\<dots> = (n div 26) * 26 + n mod 26" by (simp only: letter_char[OF le] add_diff_cancel_right')
      also have "\<dots> = n" by (rule div_mult_mod_eq)
      finally show ?thesis .
    qed
  qed
qed

lemma column_letters_inj: "column_letters a = column_letters b \<Longrightarrow> a = b"
proof -
  assume e: "column_letters a = column_letters b"
  have "a = foldl (\<lambda>a c. a * 26 + (of_char c - 64)) (0::nat) (column_letters a)"
    by (rule column_letters_value[symmetric])
  also have "\<dots> = foldl (\<lambda>a c. a * 26 + (of_char c - 64)) (0::nat) (column_letters b)"
    by (rule arg_cong[OF e])
  also have "\<dots> = b" by (rule column_letters_value)
  finally show ?thesis .
qed


lemma split_unique:
  "\<lbrakk>\<And>x. x \<in> set a \<Longrightarrow> P x; \<And>x. x \<in> set a' \<Longrightarrow> P x; \<And>x. x \<in> set b \<Longrightarrow> \<not> P x;
    \<And>x. x \<in> set b' \<Longrightarrow> \<not> P x; a @ b = a' @ b'\<rbrakk> \<Longrightarrow> a = a' \<and> b = b'"
proof (induction a arbitrary: a')
  case Nil
  show ?case
  proof (cases a')
    case Nil
    with Nil.prems(5) show ?thesis by simp
  next
    case (Cons x xs)
    with Nil.prems(5) have "x \<in> set b" by auto
    with Nil.prems(3) have "\<not> P x" by blast
    moreover from Cons Nil.prems(2) have "P x" by simp
    ultimately show ?thesis by blast
  qed
next
  case (Cons y ys)
  show ?case
  proof (cases a')
    case Nil
    with Cons.prems(5) have "y \<in> set b'" by (metis append_Cons append_Nil list.set_intros(1))
    with Cons.prems(4) have "\<not> P y" by blast
    moreover from Cons.prems(1) have "P y" by simp
    ultimately show ?thesis by blast
  next
    case c: (Cons x xs)
    with Cons.prems(5) have xy: "x = y" and rest: "ys @ b = xs @ b'" by simp_all
    have "ys = xs \<and> b = b'"
    proof (rule Cons.IH[OF _ _ _ _ rest])
      fix z assume "z \<in> set ys" then show "P z" using Cons.prems(1) by simp
    next
      fix z assume "z \<in> set xs" then show "P z" using Cons.prems(2) c by simp
    next
      fix z assume "z \<in> set b" then show "\<not> P z" using Cons.prems(3) by simp
    next
      fix z assume "z \<in> set b'" then show "\<not> P z" using Cons.prems(4) by simp
    qed
    with xy c show ?thesis by simp
  qed
qed

lemma cell_ref_inj: "cell_ref c r = cell_ref c' r' \<Longrightarrow> c = c' \<and> r = r'"
proof -
  assume e: "cell_ref c r = cell_ref c' r'"
  let ?P = "\<lambda>x. 65 \<le> (of_char x :: nat) \<and> (of_char x :: nat) \<le> 90"
  have "column_letters c = column_letters c' \<and> str_nat r = str_nat r'"
  proof (rule split_unique[where P = ?P])
    fix x assume "x \<in> set (column_letters c)" then show "?P x" by (rule column_letters_upper)
  next
    fix x assume "x \<in> set (column_letters c')" then show "?P x" by (rule column_letters_upper)
  next
    fix x assume "x \<in> set (str_nat r)"
    then have "(of_char x :: nat) \<le> 57" using str_nat_digits by blast
    then show "\<not> ?P x" by linarith
  next
    fix x assume "x \<in> set (str_nat r')"
    then have "(of_char x :: nat) \<le> 57" using str_nat_digits by blast
    then show "\<not> ?P x" by linarith
  next
    show "column_letters c @ str_nat r = column_letters c' @ str_nat r'"
      using e by (simp only: cell_ref_def)
  qed
  then show ?thesis using column_letters_inj str_nat_inj by blast
qed

lemma cell_name_ok: "1 \<le> col \<Longrightarrow> col \<le> 18278 \<Longrightarrow> cell_name col row = Inr (cell_ref col row)"
  by (simp add: cell_name_def get_column_letter_def cell_ref_def)


lemma map_of_list_extend_at:
  "map_of (list_extend_at d k xs) k' =
     (if k' = k then map_option (\<lambda>ys. ys @ xs) (map_of d k) else map_of d k')"
  by (induction d) (auto simp: list_extend_at_def)

lemma dict_has_map_of: "dict_has d k \<longleftrightarrow> map_of d k \<noteq> None"
  by (simp add: dict_has_def map_of_eq_None_iff)

lemma dict_set_fresh: "\<not> dict_has d k \<Longrightarrow> dict_set d k v = d @ [(k, v)]"
  by (induction d) (auto simp: dict_has_def)

lemma list_extend_at_fresh: "\<not> dict_has d k \<Longrightarrow> list_extend_at d k xs = d"
  by (induction d) (auto simp: dict_has_def list_extend_at_def)

lemma list_extend_at_append:
  "list_extend_at (d @ e) k xs = list_extend_at d k xs @ list_extend_at e k xs"
  by (simp add: list_extend_at_def)


lemma dict_has_append: "dict_has (d @ e) k \<longleftrightarrow> dict_has d k \<or> dict_has e k"
  by (auto simp: dict_has_def)

lemma fresh_entry:
  "\<not> dict_has d k \<Longrightarrow>
   list_extend_at (if \<not> dict_has d k then dict_set d k [] else d) k xs = d @ [(k, xs)]"
  by (simp add: dict_set_fresh list_extend_at_append list_extend_at_fresh)
     (simp add: list_extend_at_def)

lemma compare_cells_spec:
  "\<lbrakk>\<forall>p \<in> set ps. formulas_differ s1 s2 (fst p) (snd p) \<longrightarrow> 1 \<le> snd p \<and> snd p \<le> 18278;
    distinct ps; \<forall>p \<in> set ps. \<not> dict_has d (cell_ref (snd p) (fst p))\<rbrakk> \<Longrightarrow>
   compare_cells s1 s2 ps d =
     Inr (d @ map (difference_entry s1 s2)
                (filter (\<lambda>p. formulas_differ s1 s2 (fst p) (snd p)) ps))"
proof (induction ps arbitrary: d)
  case Nil
  then show ?case by simp
next
  case (Cons p ps)
  obtain row col where p: "p = (row, col)" by (cases p)
  from Cons.prems(1) have r1: "\<forall>p \<in> set ps. formulas_differ s1 s2 (fst p) (snd p) \<longrightarrow>
      1 \<le> snd p \<and> snd p \<le> 18278" by simp
  from Cons.prems(2) have r2: "distinct ps" and notin: "p \<notin> set ps" by simp_all
  from Cons.prems(3) have r3: "\<forall>q \<in> set ps. \<not> dict_has d (cell_ref (snd q) (fst q))" by simp
  from Cons.prems(3) p have fresh: "\<not> dict_has d (cell_ref col row)" by simp
  show ?case
  proof (cases "formulas_differ s1 s2 row col")
    case False
    then have "compare_cells s1 s2 (p # ps) d = compare_cells s1 s2 ps d"
      by (auto simp: p formulas_differ_def Let_def)
    with False Cons.IH[OF r1 r2 r3] show ?thesis by (simp add: p)
  next
    case True
    from Cons.prems(1) p True have col: "1 \<le> col" "col \<le> 18278" by simp_all
    let ?e = "difference_entry s1 s2 p"
    have step: "compare_cells s1 s2 (p # ps) d = compare_cells s1 s2 ps (d @ [?e])"
      using True fresh_entry[OF fresh]
      by (simp add: p formulas_differ_def Let_def cell_name_ok[OF col] difference_entry_def)
    have r3': "\<forall>q \<in> set ps. \<not> dict_has (d @ [?e]) (cell_ref (snd q) (fst q))"
    proof
      fix q assume q: "q \<in> set ps"
      with r3 have a: "\<not> dict_has d (cell_ref (snd q) (fst q))" by blast
      have "cell_ref (snd q) (fst q) \<noteq> cell_ref col row"
      proof
        assume "cell_ref (snd q) (fst q) = cell_ref col row"
        then have "snd q = col \<and> fst q = row" by (rule cell_ref_inj)
        then have "q = p" by (simp add: p prod_eq_iff)
        with q notin show False by simp
      qed
      with a show "\<not> dict_has (d @ [?e]) (cell_ref (snd q) (fst q))"
        by (simp add: dict_has_append) (simp add: dict_has_def difference_entry_def p)
    qed
    from Cons.IH[OF r1 r2 r3'] step True show ?thesis by (simp add: p)
  qed
qed


lemma compare_cells_raises:
  "\<lbrakk>p \<in> set ps; 18278 < snd p; formulas_differ s1 s2 (fst p) (snd p)\<rbrakk> \<Longrightarrow>
   compare_cells s1 s2 ps d = Inl ValueError"
proof (induction ps arbitrary: d)
  case Nil
  then show ?case by simp
next
  case (Cons q ps)
  obtain row col where q: "q = (row, col)" by (cases q)
  show ?case
  proof (cases "formulas_differ s1 s2 row col")
    case False
    then have step: "compare_cells s1 s2 (q # ps) d = compare_cells s1 s2 ps d"
      by (auto simp: q formulas_differ_def Let_def)
    from False Cons.prems(3) q have "p \<noteq> q" by auto
    with Cons.prems(1) have "p \<in> set ps" by simp
    from Cons.IH[OF this Cons.prems(2,3)] show ?thesis unfolding step .
  next
    case True
    show ?thesis
    proof (cases "1 \<le> col \<and> col \<le> 18278")
      case False
      then have "cell_name col row = Inl ValueError"
        by (simp add: cell_name_def get_column_letter_def)
      with True show ?thesis by (simp add: q formulas_differ_def Let_def)
    next
      case inrange: True
      then have name: "cell_name col row = Inr (cell_ref col row)"
        by (simp add: cell_name_ok)
      from inrange Cons.prems(2) q have "p \<noteq> q" by auto
      with Cons.prems(1) have "p \<in> set ps" by simp
      from Cons.IH[OF this Cons.prems(2,3)] True name show ?thesis
        by (simp add: q formulas_differ_def Let_def)
    qed
  qed
qed

lemma set_range1: "set (range1 n) = {1..n}"
  by (auto simp: range1_def)

lemma set_positions:
  "set (positions s) = {p. 1 \<le> fst p \<and> fst p \<le> max_row s \<and> 1 \<le> snd p \<and> snd p \<le> max_column s}"
  by (auto simp: positions_def set_range1)

lemma distinct_positions: "distinct (positions s)"
  by (simp add: positions_def range1_def distinct_product)

lemma compare_formulas_raises:
  assumes "max_row s1 = max_row s2" and "max_column s1 = max_column s2"
    and "1 \<le> row" and "row \<le> max_row s1" and "1 \<le> col" and "col \<le> max_column s1"
    and "18278 < col" and "formulas_differ s1 s2 row col"
  shows "compare_formulas s1 s2 = Inl ValueError"
proof -
  from assms(3-6) have "(row, col) \<in> set (positions s1)" by (simp add: set_positions)
  from compare_cells_raises[OF this, of s1 s2 "[]"] assms(7,8)
  have "compare_cells s1 s2 (positions s1) [] = Inl ValueError" by simp
  with assms(1,2) show ?thesis
    by (simp add: compare_formulas_def positions_def Let_def)
qed

lemma ref_A1: "cell_ref 1 1 = ''A1''"
  by code_simp

lemma ref_B1: "cell_ref 2 1 = ''B1''"
  by code_simp

section \<open>Formula comparator\<close>

text \<open>
  Claim C7, as amended. For two sheets with equal nominal rows and columns in which no
  position with two differing formulas lies beyond column 18278, the last column the
  library can name (so in particular for all sheets of at most 18278 columns), the
  formula comparator returns a result whose
  \<open>errors\<close> has an entry at a position exactly when both cells hold text beginning with
  \<^verbatim>\<open>=\<close> and the two texts differ; every key is the column letters followed by the row
  number of such a position, so a literal against a formula is never reported; and the
  status is \<^verbatim>\<open>Error\<close> exactly when some position differs, and \<^verbatim>\<open>Ok\<close> otherwise.
\<close>

theorem formula_comparator_C7:
  assumes "max_row sheet1 = max_row sheet2" and "max_column sheet1 = max_column sheet2"
    and "\<forall>row col. 1 \<le> row \<and> row \<le> max_row sheet1 \<and> 1 \<le> col \<and> col \<le> max_column sheet1 \<and>
           formulas_differ sheet1 sheet2 row col \<longrightarrow> col \<le> 18278"
  shows "\<exists>r. compare_formulas sheet1 sheet2 = Inr r \<and>
     errors r = map (difference_entry sheet1 sheet2)
                  (filter (\<lambda>p. formulas_differ sheet1 sheet2 (fst p) (snd p)) (positions sheet1)) \<and>
     (\<forall>row col. 1 \<le> row \<and> row \<le> max_row sheet1 \<and> 1 \<le> col \<and> col \<le> max_column sheet1 \<longrightarrow>
        (dict_has (errors r) (cell_ref col row) \<longleftrightarrow> formulas_differ sheet1 sheet2 row col)) \<and>
     (\<forall>k. dict_has (errors r) k \<longrightarrow>
        (\<exists>row col. 1 \<le> row \<and> row \<le> max_row sheet1 \<and> 1 \<le> col \<and> col \<le> max_column sheet1 \<and>
           k = cell_ref col row)) \<and>
     (status r = ''Error'' \<longleftrightarrow>
        (\<exists>row col. 1 \<le> row \<and> row \<le> max_row sheet1 \<and> 1 \<le> col \<and> col \<le> max_column sheet1 \<and>
           formulas_differ sheet1 sheet2 row col)) \<and>
     (status r = ''Ok'' \<longleftrightarrow>
        \<not> (\<exists>row col. 1 \<le> row \<and> row \<le> max_row sheet1 \<and> 1 \<le> col \<and> col \<le> max_column sheet1 \<and>
           formulas_differ sheet1 sheet2 row col))"
proof -
  let ?D = "filter (\<lambda>p. formulas_differ sheet1 sheet2 (fst p) (snd p)) (positions sheet1)"
  let ?E = "map (difference_entry sheet1 sheet2) ?D"
  have a1: "\<forall>p \<in> set (positions sheet1). formulas_differ sheet1 sheet2 (fst p) (snd p) \<longrightarrow>
      1 \<le> snd p \<and> snd p \<le> 18278"
    using assms(3) by (auto simp: set_positions)
  have loop: "compare_cells sheet1 sheet2 (positions sheet1) [] = Inr ?E"
    using compare_cells_spec[OF a1 distinct_positions, of "[]"]
    by (simp add: dict_has_def)
  have keys: "\<And>k. dict_has ?E k \<longleftrightarrow> (\<exists>p \<in> set ?D. k = cell_ref (snd p) (fst p))"
    by (auto simp: dict_has_def difference_entry_def image_iff split: prod.splits)
  have nonempty: "?E \<noteq> [] \<longleftrightarrow>
      (\<exists>row col. 1 \<le> row \<and> row \<le> max_row sheet1 \<and> 1 \<le> col \<and> col \<le> max_column sheet1 \<and>
           formulas_differ sheet1 sheet2 row col)"
    by (auto simp: filter_empty_conv set_positions)
  define r where "r = (if ?E \<noteq> []
      then \<lparr>status = ''Error'', description = ''Found formula differences'', errors = ?E\<rparr>
      else \<lparr>status = ''Ok'', description = ''All formulas are equivalent'', errors = []\<rparr>)"
  have ret: "compare_formulas sheet1 sheet2 = Inr r"
    using assms(1,2) loop by (simp add: compare_formulas_def r_def positions_def Let_def)
  have err: "errors r = ?E" by (simp add: r_def)
  have c2: "\<forall>row col. 1 \<le> row \<and> row \<le> max_row sheet1 \<and> 1 \<le> col \<and> col \<le> max_column sheet1 \<longrightarrow>
        (dict_has (errors r) (cell_ref col row) \<longleftrightarrow> formulas_differ sheet1 sheet2 row col)"
  proof (intro allI impI)
    fix row col
    assume rc: "1 \<le> row \<and> row \<le> max_row sheet1 \<and> 1 \<le> col \<and> col \<le> max_column sheet1"
    show "dict_has (errors r) (cell_ref col row) \<longleftrightarrow> formulas_differ sheet1 sheet2 row col"
    proof
      assume "dict_has (errors r) (cell_ref col row)"
      then obtain p where p: "p \<in> set ?D" "cell_ref col row = cell_ref (snd p) (fst p)"
        using keys err by auto
      from cell_ref_inj[OF p(2)] p(1) show "formulas_differ sheet1 sheet2 row col" by simp
    next
      assume "formulas_differ sheet1 sheet2 row col"
      with rc have "(row, col) \<in> set ?D" by (simp add: set_positions)
      then show "dict_has (errors r) (cell_ref col row)"
        unfolding err keys by force
    qed
  qed
  have c3: "\<forall>k. dict_has (errors r) k \<longrightarrow>
        (\<exists>row col. 1 \<le> row \<and> row \<le> max_row sheet1 \<and> 1 \<le> col \<and> col \<le> max_column sheet1 \<and>
           k = cell_ref col row)"
    unfolding err keys by (auto simp: set_positions)
  have "status r = ''Error'' \<longleftrightarrow> ?E \<noteq> []" by (simp add: r_def)
  then have c4: "status r = ''Error'' \<longleftrightarrow>
        (\<exists>row col. 1 \<le> row \<and> row \<le> max_row sheet1 \<and> 1 \<le> col \<and> col \<le> max_column sheet1 \<and>
           formulas_differ sheet1 sheet2 row col)"
    by (simp only: nonempty)
  have "status r = ''Ok'' \<longleftrightarrow> \<not> ?E \<noteq> []" by (simp add: r_def)
  then have c5: "status r = ''Ok'' \<longleftrightarrow>
        \<not> (\<exists>row col. 1 \<le> row \<and> row \<le> max_row sheet1 \<and> 1 \<le> col \<and> col \<le> max_column sheet1 \<and>
           formulas_differ sheet1 sheet2 row col)"
    by (simp only: nonempty)
  show ?thesis
    by (rule exI[of _ r]) (intro conjI ret err c2 c3 c4 c5)
qed

theorem formula_comparator_C7_witness:
  "max_row template_sheet = max_row company_sheet \<and>
   max_column template_sheet = max_column company_sheet \<and>
   max_column template_sheet \<le> 18278 \<and>
   (\<exists>r. compare_formulas template_sheet company_sheet = Inr r \<and>
        dict_has (errors r) ''A1'' \<and> \<not> dict_has (errors r) ''B1'' \<and> status r = ''Error'')"
proof -
  have h1: "max_row template_sheet = max_row company_sheet"
    and h2: "max_column template_sheet = max_column company_sheet"
    and h0: "max_column template_sheet \<le> 18278"
    by (simp_all add: template_sheet_def company_sheet_def)
  from h0 have h3: "\<forall>row col. 1 \<le> row \<and> row \<le> max_row template_sheet \<and> 1 \<le> col \<and>
      col \<le> max_column template_sheet \<and> formulas_differ template_sheet company_sheet row col \<longrightarrow>
      col \<le> 18278"
    by auto
  have d1: "formulas_differ template_sheet company_sheet 1 1"
    by (simp add: formulas_differ_def template_sheet_def company_sheet_def)
  have d2: "\<not> formulas_differ template_sheet company_sheet 1 2"
    by (simp add: formulas_differ_def template_sheet_def company_sheet_def)
  have in1: "1 \<le> (1::nat) \<and> 1 \<le> max_row template_sheet \<and> 1 \<le> (1::nat) \<and> 1 \<le> max_column template_sheet"
    by (simp add: template_sheet_def)
  have in2: "1 \<le> (1::nat) \<and> 1 \<le> max_row template_sheet \<and> 1 \<le> (2::nat) \<and> 2 \<le> max_column template_sheet"
    by (simp add: template_sheet_def)
  from formula_comparator_C7[OF h1 h2 h3] obtain r where
    r: "compare_formulas template_sheet company_sheet = Inr r"
    and iff: "\<forall>row col. 1 \<le> row \<and> row \<le> max_row template_sheet \<and> 1 \<le> col \<and>
                col \<le> max_column template_sheet \<longrightarrow>
        (dict_has (errors r) (cell_ref col row) \<longleftrightarrow> formulas_differ template_sheet company_sheet row col)"
    and st: "status r = ''Error'' \<longleftrightarrow>
        (\<exists>row col. 1 \<le> row \<and> row \<le> max_row template_sheet \<and> 1 \<le> col \<and>
           col \<le> max_column template_sheet \<and> formulas_differ template_sheet company_sheet row col)"
    by blast
  from iff in1 d1 have a: "dict_has (errors r) ''A1''" unfolding ref_A1[symmetric] by blast
  from iff in2 d2 have b: "\<not> dict_has (errors r) ''B1''" unfolding ref_B1[symmetric] by blast
  from st in1 d1 have c: "status r = ''Error''" by blast
  from h1 h2 h0 r a b c show ?thesis by blast
qed

theorem formula_comparator_C7_counterexample:
  "max_row far_template_sheet = max_row far_company_sheet \<and>
   max_column far_template_sheet = max_column far_company_sheet \<and>
   compare_formulas far_template_sheet far_company_sheet = Inl ValueError"
proof -
  have d: "max_row far_template_sheet = max_row far_company_sheet"
    "max_column far_template_sheet = max_column far_company_sheet"
    by (simp_all add: far_template_sheet_def far_company_sheet_def)
  have r: "1 \<le> (1::nat)" "1 \<le> max_row far_template_sheet" "1 \<le> (18279::nat)"
    "18279 \<le> max_column far_template_sheet" "18278 < (18279::nat)"
    by (simp_all add: far_template_sheet_def)
  have f: "formulas_differ far_template_sheet far_company_sheet 1 18279"
    by (simp add: formulas_differ_def far_template_sheet_def far_company_sheet_def)
  from compare_formulas_raises[OF d r f] d show ?thesis by blast
qed

section \<open>Formula-error scanner\<close>










section \<open>Used-area detector\<close>

lemma count_empty_takeWhile: "count_empty P xs c = c + length (takeWhile P xs)"
  by (induction xs arbitrary: c) auto

lemma all_none_row_values:
  "all_none (row_values sheet row) \<longleftrightarrow>
     (\<forall>col \<in> {1..max_column sheet}. cell_value (cell sheet row col) = SNone)"
  by (simp add: all_none_def row_values_def list_all_iff set_range1)

lemma all_none_column_values:
  "all_none (column_values sheet col) \<longleftrightarrow>
     (\<forall>row \<in> {1..max_row sheet}. cell_value (cell sheet row col) = SNone)"
  by (simp add: all_none_def column_values_def list_all_iff set_range1)

lemma takeWhile_down_Suc:
  "takeWhile P (rev [1..<Suc (Suc n)]) =
     (if P (Suc n) then Suc n # takeWhile P (rev [1..<Suc n]) else [])"
  by simp

lemma trailing_count_Suc:
  "length (takeWhile P (rev [1..<Suc n])) \<le> n \<and>
   (\<forall>i. n - length (takeWhile P (rev [1..<Suc n])) < i \<and> i \<le> n \<longrightarrow> P i) \<and>
   (length (takeWhile P (rev [1..<Suc n])) < n \<longrightarrow>
      \<not> P (n - length (takeWhile P (rev [1..<Suc n]))))"
proof (induction n)
  case 0
  show ?case by simp
next
  case (Suc n)
  show ?case
  proof (cases "P (Suc n)")
    case False
    then have "takeWhile P (rev [1..<Suc (Suc n)]) = []"
      by (simp only: takeWhile_down_Suc if_False)
    with False show ?thesis by (auto simp del: upt_Suc)
  next
    case True
    let ?k = "length (takeWhile P (rev [1..<Suc n]))"
    have len: "length (takeWhile P (rev [1..<Suc (Suc n)])) = Suc ?k"
      using True by (simp only: takeWhile_down_Suc if_True list.size(4))
    from Suc.IH have a: "?k \<le> n" and b: "\<forall>i. n - ?k < i \<and> i \<le> n \<longrightarrow> P i"
      and c: "?k < n \<longrightarrow> \<not> P (n - ?k)" by blast+
    have b': "\<forall>i. Suc n - Suc ?k < i \<and> i \<le> Suc n \<longrightarrow> P i"
    proof (intro allI impI)
      fix i assume i: "Suc n - Suc ?k < i \<and> i \<le> Suc n"
      show "P i"
      proof (cases "i = Suc n")
        case True with \<open>P (Suc n)\<close> show ?thesis by simp
      next
        case False
        with i have "n - ?k < i \<and> i \<le> n" by (simp del: upt_Suc)
        with b show ?thesis by blast
      qed
    qed
    from a have a': "Suc ?k \<le> Suc n" by simp
    from c have c': "Suc ?k < Suc n \<longrightarrow> \<not> P (Suc n - Suc ?k)" by simp
    show ?thesis unfolding len by (intro conjI a' b' c')
  qed
qed

lemma trailing_count:
  "length (takeWhile P (rev [1..<n + 1])) \<le> n \<and>
   (\<forall>i. n - length (takeWhile P (rev [1..<n + 1])) < i \<and> i \<le> n \<longrightarrow> P i) \<and>
   (length (takeWhile P (rev [1..<n + 1])) < n \<longrightarrow>
      \<not> P (n - length (takeWhile P (rev [1..<n + 1]))))"
  using trailing_count_Suc[of P n] unfolding Suc_eq_plus1 .

text \<open>
Claim C8. The detector's \<open>empty_rows\<close> is the number of consecutive rows, counted from
  the last nominal row backward, in which every cell over all nominal columns has no
  value, the count stopping at the first row that has one: every row above
  \<open>max_row - empty_rows\<close> is empty, and the row \<open>max_row - empty_rows\<close>, when there is
  one, is not. The same holds for \<open>empty_columns\<close> over the full nominal row range, and
  \<open>last_used_row = max_row - empty_rows\<close>, \<open>last_used_column = max_column - empty_columns\<close>.
\<close>

theorem used_area_C8:
  "empty_rows (get_used_area sheet) = trailing_empty_rows sheet \<and>
   empty_columns (get_used_area sheet) = trailing_empty_columns sheet \<and>
   last_used_row (get_used_area sheet) = max_row sheet - empty_rows (get_used_area sheet) \<and>
   last_used_column (get_used_area sheet) = max_column sheet - empty_columns (get_used_area sheet) \<and>
   empty_rows (get_used_area sheet) \<le> max_row sheet \<and>
   empty_columns (get_used_area sheet) \<le> max_column sheet \<and>
   (\<forall>row col. max_row sheet - empty_rows (get_used_area sheet) < row \<and> row \<le> max_row sheet \<and>
        1 \<le> col \<and> col \<le> max_column sheet \<longrightarrow> cell_value (cell sheet row col) = SNone) \<and>
   (empty_rows (get_used_area sheet) < max_row sheet \<longrightarrow>
      (\<exists>col. 1 \<le> col \<and> col \<le> max_column sheet \<and>
         cell_value (cell sheet (max_row sheet - empty_rows (get_used_area sheet)) col) \<noteq> SNone)) \<and>
   (\<forall>row col. max_column sheet - empty_columns (get_used_area sheet) < col \<and>
        col \<le> max_column sheet \<and> 1 \<le> row \<and> row \<le> max_row sheet \<longrightarrow>
        cell_value (cell sheet row col) = SNone) \<and>
   (empty_columns (get_used_area sheet) < max_column sheet \<longrightarrow>
      (\<exists>row. 1 \<le> row \<and> row \<le> max_row sheet \<and>
         cell_value (cell sheet row (max_column sheet - empty_columns (get_used_area sheet))) \<noteq> SNone))"
proof -
  let ?PR = "\<lambda>row. \<forall>col \<in> {1..max_column sheet}. cell_value (cell sheet row col) = SNone"
  let ?PC = "\<lambda>col. \<forall>row \<in> {1..max_row sheet}. cell_value (cell sheet row col) = SNone"
  have er: "empty_rows (get_used_area sheet) = trailing_empty_rows sheet"
    by (simp add: get_used_area_def Let_def count_empty_takeWhile all_none_row_values
        range_down_def trailing_empty_rows_def)
  have ec: "empty_columns (get_used_area sheet) = trailing_empty_columns sheet"
    by (simp add: get_used_area_def Let_def count_empty_takeWhile all_none_column_values
        range_down_def trailing_empty_columns_def)
  have lr: "last_used_row (get_used_area sheet) = max_row sheet - empty_rows (get_used_area sheet)"
    by (simp add: get_used_area_def Let_def)
  have lc: "last_used_column (get_used_area sheet) = max_column sheet - empty_columns (get_used_area sheet)"
    by (simp add: get_used_area_def Let_def)
  note tr = trailing_count[of ?PR "max_row sheet", folded trailing_empty_rows_def]
  note tc = trailing_count[of ?PC "max_column sheet", folded trailing_empty_columns_def]
  from tr have r1: "empty_rows (get_used_area sheet) \<le> max_row sheet" unfolding er by blast
  from tc have c1: "empty_columns (get_used_area sheet) \<le> max_column sheet" unfolding ec by blast
  from tr have r2: "\<forall>row col. max_row sheet - empty_rows (get_used_area sheet) < row \<and> row \<le> max_row sheet \<and>
        1 \<le> col \<and> col \<le> max_column sheet \<longrightarrow> cell_value (cell sheet row col) = SNone"
    unfolding er by auto
  from tr have r3: "empty_rows (get_used_area sheet) < max_row sheet \<longrightarrow>
      (\<exists>col. 1 \<le> col \<and> col \<le> max_column sheet \<and>
         cell_value (cell sheet (max_row sheet - empty_rows (get_used_area sheet)) col) \<noteq> SNone)"
    unfolding er by auto
  from tc have c2: "\<forall>row col. max_column sheet - empty_columns (get_used_area sheet) < col \<and>
        col \<le> max_column sheet \<and> 1 \<le> row \<and> row \<le> max_row sheet \<longrightarrow>
        cell_value (cell sheet row col) = SNone"
    unfolding ec by auto
  from tc have c3: "empty_columns (get_used_area sheet) < max_column sheet \<longrightarrow>
      (\<exists>row. 1 \<le> row \<and> row \<le> max_row sheet \<and>
         cell_value (cell sheet row (max_column sheet - empty_columns (get_used_area sheet))) \<noteq> SNone)"
    unfolding ec by auto
  show ?thesis by (intro conjI er ec lr lc r1 c1 r2 r3 c2 c3)
qed


lemma padded_sheet_area:
  "get_used_area padded_sheet =
     \<lparr>empty_rows = 2, empty_columns = 1, last_used_row = 2, last_used_column = 2\<rparr>"
  by code_simp

theorem used_area_C8_witness:
  "trailing_empty_rows padded_sheet = 2 \<and>
   trailing_empty_columns padded_sheet = 1 \<and>
   last_used_row (get_used_area padded_sheet) = 2 \<and>
   last_used_column (get_used_area padded_sheet) = 2 \<and>
   cell_value (cell padded_sheet 3 1) = SNone \<and>
   (\<exists>col. 1 \<le> col \<and> col \<le> max_column padded_sheet \<and> cell_value (cell padded_sheet 2 col) \<noteq> SNone)"
proof -
  have er: "empty_rows (get_used_area padded_sheet) = 2"
    and ec: "empty_columns (get_used_area padded_sheet) = 1"
    and lr: "last_used_row (get_used_area padded_sheet) = 2"
    and lc: "last_used_column (get_used_area padded_sheet) = 2"
    by (simp_all add: padded_sheet_area)
  have m: "max_row padded_sheet = 4" "max_column padded_sheet = 3"
    by (simp_all add: padded_sheet_def)
  note t = used_area_C8[of padded_sheet]
  from t have tr: "trailing_empty_rows padded_sheet = 2"
    and tc: "trailing_empty_columns padded_sheet = 1" unfolding er ec by simp_all
  from t have "\<forall>row col. max_row padded_sheet - empty_rows (get_used_area padded_sheet) < row \<and>
      row \<le> max_row padded_sheet \<and> 1 \<le> col \<and> col \<le> max_column padded_sheet \<longrightarrow>
      cell_value (cell padded_sheet row col) = SNone" by blast
  then have e: "cell_value (cell padded_sheet 3 1) = SNone" unfolding er m by simp
  from t have "empty_rows (get_used_area padded_sheet) < max_row padded_sheet \<longrightarrow>
      (\<exists>col. 1 \<le> col \<and> col \<le> max_column padded_sheet \<and>
         cell_value (cell padded_sheet (max_row padded_sheet - empty_rows (get_used_area padded_sheet)) col) \<noteq> SNone)"
    by blast
  then have n: "\<exists>col. 1 \<le> col \<and> col \<le> max_column padded_sheet \<and>
      cell_value (cell padded_sheet 2 col) \<noteq> SNone" unfolding er m by simp
  show ?thesis by (intro conjI tr tc lr lc e n)
qed

section \<open>Used-area detector on an empty sheet\<close>

lemma count_empty_all: "(\<forall>i \<in> set xs. P i) \<Longrightarrow> count_empty P xs c = c + length xs"
  by (induction xs arbitrary: c) auto

text \<open>
Claim C5, as amended. For a sheet in which no cell within the nominal extents has a
  value, the detector counts every row and every column as empty:
  \<open>empty_rows = max_row\<close>, \<open>empty_columns = max_column\<close> and
  \<open>last_used_row = last_used_column = 0\<close>. The counting loops run down to row 1 and
  column 1, so the first row and column are counted too.
\<close>

theorem used_area_empty_sheet_C5:
  assumes "\<forall>row col. 1 \<le> row \<and> row \<le> max_row sheet \<and> 1 \<le> col \<and> col \<le> max_column sheet \<longrightarrow>
             cell_value (cell sheet row col) = SNone"
  shows "empty_rows (get_used_area sheet) = max_row sheet \<and>
         empty_columns (get_used_area sheet) = max_column sheet \<and>
         last_used_row (get_used_area sheet) = 0 \<and>
         last_used_column (get_used_area sheet) = 0"
proof -
  have rows: "\<forall>row \<in> set (range_down (max_row sheet)). all_none (row_values sheet row)"
    using assms by (auto simp: all_none_row_values range_down_def)
  have cols: "\<forall>col \<in> set (range_down (max_column sheet)). all_none (column_values sheet col)"
    using assms by (auto simp: all_none_column_values range_down_def)
  have er: "empty_rows (get_used_area sheet) = max_row sheet"
    by (simp add: get_used_area_def Let_def count_empty_all[OF rows]) (simp add: range_down_def)
  have ec: "empty_columns (get_used_area sheet) = max_column sheet"
    by (simp add: get_used_area_def Let_def count_empty_all[OF cols]) (simp add: range_down_def)
  have lr: "last_used_row (get_used_area sheet) = max_row sheet - empty_rows (get_used_area sheet)"
    by (simp add: get_used_area_def Let_def)
  have lc: "last_used_column (get_used_area sheet) = max_column sheet - empty_columns (get_used_area sheet)"
    by (simp add: get_used_area_def Let_def)
  from er ec lr lc show ?thesis by simp
qed

theorem used_area_empty_sheet_C5_witness:
  "cell_value (cell empty_grid_sheet 3 2) = SNone \<and>
   empty_rows (get_used_area empty_grid_sheet) = 3 \<and>
   empty_columns (get_used_area empty_grid_sheet) = 2 \<and>
   last_used_row (get_used_area empty_grid_sheet) = 0 \<and>
   last_used_column (get_used_area empty_grid_sheet) = 0"
proof -
  have h: "\<forall>row col. 1 \<le> row \<and> row \<le> max_row empty_grid_sheet \<and> 1 \<le> col \<and>
      col \<le> max_column empty_grid_sheet \<longrightarrow> cell_value (cell empty_grid_sheet row col) = SNone"
    by (simp add: empty_grid_sheet_def)
  have c: "cell_value (cell empty_grid_sheet 3 2) = SNone" by (simp add: empty_grid_sheet_def)
  have m: "max_row empty_grid_sheet = 3" "max_column empty_grid_sheet = 2"
    by (simp_all add: empty_grid_sheet_def)
  from used_area_empty_sheet_C5[OF h] c show ?thesis unfolding m by simp
qed

theorem used_area_empty_sheet_C5_counterexample:
  "cell_value (cell blank_sheet 1 1) = SNone \<and>
   max_row blank_sheet = 1 \<and> max_column blank_sheet = 1 \<and>
   \<not> (empty_rows (get_used_area blank_sheet) = max_row blank_sheet - 1 \<and>
      empty_columns (get_used_area blank_sheet) = max_column blank_sheet - 1 \<and>
      last_used_row (get_used_area blank_sheet) = 1 \<and>
      last_used_column (get_used_area blank_sheet) = 1) \<and>
   empty_rows (get_used_area blank_sheet) = 1 \<and>
   empty_columns (get_used_area blank_sheet) = 1 \<and>
   last_used_row (get_used_area blank_sheet) = 0 \<and>
   last_used_column (get_used_area blank_sheet) = 0"
  by (simp add: blank_sheet_def get_used_area_def Let_def range_down_def range1_def
      all_none_def row_values_def column_values_def)

section \<open>Sheet-set differ\<close>

lemma set_difference_set: "set (set_difference (py_set a) (py_set b)) = set a - set b"
  by (auto simp: set_difference_def py_set_def)

lemma set_difference_distinct: "distinct (set_difference (py_set a) (py_set b))"
  by (simp add: set_difference_def py_set_def)

lemma set_difference_empty: "set_difference (py_set a) (py_set b) = [] \<longleftrightarrow> set a - set b = {}"
proof -
  have "set_difference (py_set a) (py_set b) = [] \<longleftrightarrow> set (set_difference (py_set a) (py_set b)) = {}"
    by simp
  then show ?thesis by (simp only: set_difference_set)
qed

lemma validate_tabs_errors:
  "errors (validate_tabs_between_spreadsheets wb1 wb2) =
     (if set_difference (py_set (sheetnames wb2)) (py_set (sheetnames wb1)) \<noteq> []
      then [(''Missing In Spreadsheet 1'',
             set_difference (py_set (sheetnames wb2)) (py_set (sheetnames wb1)))] else []) @
     (if set_difference (py_set (sheetnames wb1)) (py_set (sheetnames wb2)) \<noteq> []
      then [(''Missing In Spreadsheet 2'',
             set_difference (py_set (sheetnames wb1)) (py_set (sheetnames wb2)))] else [])"
  by (simp add: validate_tabs_between_spreadsheets_def Let_def)

lemma validate_tabs_status:
  "status (validate_tabs_between_spreadsheets wb1 wb2) =
     (if set_difference (py_set (sheetnames wb2)) (py_set (sheetnames wb1)) \<noteq> [] \<or>
         set_difference (py_set (sheetnames wb1)) (py_set (sheetnames wb2)) \<noteq> []
      then ''Error'' else ''Ok'')"
  by (simp add: validate_tabs_between_spreadsheets_def Let_def)

text \<open>
Claim C9. The sheet-set differ returns status \<^verbatim>\<open>Ok\<close> exactly when the two workbooks
  have the same set of sheet names, and \<^verbatim>\<open>Error\<close> otherwise; \<open>errors\<close> is empty exactly
  when the status is \<^verbatim>\<open>Ok\<close>; its only keys are \<^verbatim>\<open>Missing In Spreadsheet 1\<close> and
  \<^verbatim>\<open>Missing In Spreadsheet 2\<close>; the first is present exactly when some name of the
  second workbook is absent from the first and then lists exactly those names, each
  once, and the second likewise with the workbooks exchanged.
\<close>

theorem sheet_set_differ_C9:
  assumes "r = validate_tabs_between_spreadsheets wb1 wb2"
  shows "(status r = ''Ok'' \<longleftrightarrow> set (sheetnames wb1) = set (sheetnames wb2)) \<and>
     (status r = ''Error'' \<longleftrightarrow> set (sheetnames wb1) \<noteq> set (sheetnames wb2)) \<and>
     (errors r = [] \<longleftrightarrow> status r = ''Ok'') \<and>
     (\<forall>k. dict_has (errors r) k \<longrightarrow>
        k = ''Missing In Spreadsheet 1'' \<or> k = ''Missing In Spreadsheet 2'') \<and>
     (map_of (errors r) ''Missing In Spreadsheet 1'' = None \<longleftrightarrow>
        set (sheetnames wb2) - set (sheetnames wb1) = {}) \<and>
     (\<forall>names. map_of (errors r) ''Missing In Spreadsheet 1'' = Some names \<longrightarrow>
        set names = set (sheetnames wb2) - set (sheetnames wb1) \<and> distinct names) \<and>
     (map_of (errors r) ''Missing In Spreadsheet 2'' = None \<longleftrightarrow>
        set (sheetnames wb1) - set (sheetnames wb2) = {}) \<and>
     (\<forall>names. map_of (errors r) ''Missing In Spreadsheet 2'' = Some names \<longrightarrow>
        set names = set (sheetnames wb1) - set (sheetnames wb2) \<and> distinct names)"
proof -
  let ?m1 = "set_difference (py_set (sheetnames wb2)) (py_set (sheetnames wb1))"
  let ?m2 = "set_difference (py_set (sheetnames wb1)) (py_set (sheetnames wb2))"
  have e1: "?m1 = [] \<longleftrightarrow> set (sheetnames wb2) - set (sheetnames wb1) = {}"
    by (rule set_difference_empty)
  have e2: "?m2 = [] \<longleftrightarrow> set (sheetnames wb1) - set (sheetnames wb2) = {}"
    by (rule set_difference_empty)
  have eq: "set (sheetnames wb1) = set (sheetnames wb2) \<longleftrightarrow> ?m1 = [] \<and> ?m2 = []"
    unfolding e1 e2 by blast
  have st: "status r = (if ?m1 \<noteq> [] \<or> ?m2 \<noteq> [] then ''Error'' else ''Ok'')"
    unfolding assms by (rule validate_tabs_status)
  have er: "errors r =
     (if ?m1 \<noteq> [] then [(''Missing In Spreadsheet 1'', ?m1)] else []) @
     (if ?m2 \<noteq> [] then [(''Missing In Spreadsheet 2'', ?m2)] else [])"
    unfolding assms by (rule validate_tabs_errors)
  have c1: "status r = ''Ok'' \<longleftrightarrow> set (sheetnames wb1) = set (sheetnames wb2)"
    unfolding st eq by simp
  have c2: "status r = ''Error'' \<longleftrightarrow> set (sheetnames wb1) \<noteq> set (sheetnames wb2)"
    unfolding st eq by simp
  have c3: "errors r = [] \<longleftrightarrow> status r = ''Ok''"
    unfolding st er by simp
  have c4: "\<forall>k. dict_has (errors r) k \<longrightarrow>
        k = ''Missing In Spreadsheet 1'' \<or> k = ''Missing In Spreadsheet 2''"
    unfolding er by (auto simp: dict_has_def split: if_splits)
  have c5: "map_of (errors r) ''Missing In Spreadsheet 1'' = None \<longleftrightarrow>
        set (sheetnames wb2) - set (sheetnames wb1) = {}"
    unfolding er e1[symmetric] by simp
  have c6: "\<forall>names. map_of (errors r) ''Missing In Spreadsheet 1'' = Some names \<longrightarrow>
        set names = set (sheetnames wb2) - set (sheetnames wb1) \<and> distinct names"
    unfolding er using set_difference_set[of "sheetnames wb2" "sheetnames wb1"]
      set_difference_distinct[of "sheetnames wb2" "sheetnames wb1"]
    by (simp split: if_splits)
  have c7: "map_of (errors r) ''Missing In Spreadsheet 2'' = None \<longleftrightarrow>
        set (sheetnames wb1) - set (sheetnames wb2) = {}"
    unfolding er e2[symmetric] by simp
  have c8: "\<forall>names. map_of (errors r) ''Missing In Spreadsheet 2'' = Some names \<longrightarrow>
        set names = set (sheetnames wb1) - set (sheetnames wb2) \<and> distinct names"
    unfolding er using set_difference_set[of "sheetnames wb1" "sheetnames wb2"]
      set_difference_distinct[of "sheetnames wb1" "sheetnames wb2"]
    by (simp split: if_splits)
  show ?thesis by (intro conjI c1 c2 c3 c4 c5 c6 c7 c8)
qed

lemma names_t: "sheetnames template_workbook = [''fOut_A'', ''Data'']"
  by (simp add: sheetnames_def template_workbook_def template_sheet_def error_sheet_def)

lemma names_c: "sheetnames company_workbook = [''fOut_A'']"
  by (simp add: sheetnames_def company_workbook_def company_sheet_def)

lemma example_differ:
  "validate_tabs_between_spreadsheets template_workbook company_workbook =
     \<lparr>status = ''Error'', description = ''Spreadsheets have different sheet names.'',
      errors = [(''Missing In Spreadsheet 2'', [''Data''])]\<rparr>"
  by (simp add: validate_tabs_between_spreadsheets_def names_t names_c
      py_set_def set_difference_def Let_def)

theorem sheet_set_differ_C9_witness:
  "status (validate_tabs_between_spreadsheets template_workbook company_workbook) = ''Error'' \<and>
   set (sheetnames template_workbook) \<noteq> set (sheetnames company_workbook) \<and>
   map_of (errors (validate_tabs_between_spreadsheets template_workbook company_workbook))
     ''Missing In Spreadsheet 2'' = Some [''Data''] \<and>
   set (sheetnames template_workbook) - set (sheetnames company_workbook) = {''Data''} \<and>
   set (sheetnames company_workbook) - set (sheetnames template_workbook) = {}"
proof -
  note t = sheet_set_differ_C9[OF refl, of template_workbook company_workbook]
  have s: "status (validate_tabs_between_spreadsheets template_workbook company_workbook) = ''Error''"
    and m: "map_of (errors (validate_tabs_between_spreadsheets template_workbook company_workbook))
     ''Missing In Spreadsheet 2'' = Some [''Data'']"
    and n: "map_of (errors (validate_tabs_between_spreadsheets template_workbook company_workbook))
     ''Missing In Spreadsheet 1'' = None"
    by (simp_all add: example_differ)
  from t s have a: "set (sheetnames template_workbook) \<noteq> set (sheetnames company_workbook)" by blast
  from t have "\<forall>names. map_of (errors (validate_tabs_between_spreadsheets template_workbook company_workbook))
      ''Missing In Spreadsheet 2'' = Some names \<longrightarrow>
        set names = set (sheetnames template_workbook) - set (sheetnames company_workbook) \<and> distinct names"
    by blast
  with m have "set [''Data''] = set (sheetnames template_workbook) - set (sheetnames company_workbook)"
    by blast
  then have b: "set (sheetnames template_workbook) - set (sheetnames company_workbook) = {''Data''}"
    by simp
  from t n have c: "set (sheetnames company_workbook) - set (sheetnames template_workbook) = {}"
    by blast
  show ?thesis by (intro conjI s a m b c)
qed

section \<open>The invariant of comparison results\<close>

lemma structure_result_shape:
  "\<exists>e. check_sheet_structure sheet1 sheet2 h =
     (if e \<noteq> []
      then \<lparr>status = ''Error'',
            description = ''The following discrepancies were found in the sheet structure:'',
            errors = e\<rparr>
      else \<lparr>status = ''Ok'',
            description = ''Spreadsheets '' @ quote (title sheet1) @ '' and '' @
                          quote (title sheet2) @ '' have the same structure.'',
            errors = []\<rparr>)"
  unfolding check_sheet_structure_def Let_def by (rule exI) (rule refl)

lemma structure_invariant:
  "status (check_sheet_structure sheet1 sheet2 h) = ''Ok'' \<longleftrightarrow>
   errors (check_sheet_structure sheet1 sheet2 h) = []"
proof -
  from structure_result_shape[of sheet1 sheet2 h] obtain e where
    "check_sheet_structure sheet1 sheet2 h =
     (if e \<noteq> []
      then \<lparr>status = ''Error'',
            description = ''The following discrepancies were found in the sheet structure:'',
            errors = e\<rparr>
      else \<lparr>status = ''Ok'',
            description = ''Spreadsheets '' @ quote (title sheet1) @ '' and '' @
                          quote (title sheet2) @ '' have the same structure.'',
            errors = []\<rparr>)" by blast
  then show ?thesis by (cases "e = []") simp_all
qed

lemma scanner_invariant:
  "check_formula_errors sheet = Inr r \<Longrightarrow> (status r = ''Ok'' \<longleftrightarrow> errors r = [])"
  by (auto simp: check_formula_errors_def split: sum.splits if_splits)

lemma comparator_invariant:
  "compare_formulas sheet1 sheet2 = Inr r \<Longrightarrow>
     (status r = ''Ok'' \<longrightarrow> errors r = []) \<and>
     (max_row sheet1 = max_row sheet2 \<and> max_column sheet1 = max_column sheet2 \<longrightarrow>
        (status r = ''Ok'' \<longleftrightarrow> errors r = [])) \<and>
     (\<not> (max_row sheet1 = max_row sheet2 \<and> max_column sheet1 = max_column sheet2) \<longrightarrow>
        status r = ''Error'' \<and> errors r = [])"
  by (auto simp: compare_formulas_def Let_def split: sum.splits if_splits)

lemma tabs_invariant:
  "status (validate_tabs_between_spreadsheets wb1 wb2) = ''Ok'' \<longleftrightarrow>
   errors (validate_tabs_between_spreadsheets wb1 wb2) = []"
  by (simp add: validate_tabs_status validate_tabs_errors)

text \<open>
Claim C1, as amended. The results of the sheet-set differ, of the structure comparator
  and of the formula-error scanner have status \<^verbatim>\<open>Ok\<close> exactly when \<open>errors\<close> is empty,
  and so has the result of the formula comparator on two sheets of equal nominal rows
  and columns. In every result of the formula comparator, status \<^verbatim>\<open>Ok\<close> implies that
  \<open>errors\<close> is empty; but when the nominal rows or columns differ, its result has status
  \<^verbatim>\<open>Error\<close> together with an empty \<open>errors\<close>.
\<close>

theorem comparison_result_invariant_C1:
  "(status (validate_tabs_between_spreadsheets wb1 wb2) = ''Ok'' \<longleftrightarrow>
      errors (validate_tabs_between_spreadsheets wb1 wb2) = []) \<and>
   (status (check_sheet_structure sheet1 sheet2 h) = ''Ok'' \<longleftrightarrow>
      errors (check_sheet_structure sheet1 sheet2 h) = []) \<and>
   (\<forall>r. check_formula_errors sheet = Inr r \<longrightarrow> (status r = ''Ok'' \<longleftrightarrow> errors r = [])) \<and>
   (\<forall>r. compare_formulas sheet3 sheet4 = Inr r \<longrightarrow>
      (status r = ''Ok'' \<longrightarrow> errors r = []) \<and>
      (max_row sheet3 = max_row sheet4 \<and> max_column sheet3 = max_column sheet4 \<longrightarrow>
         (status r = ''Ok'' \<longleftrightarrow> errors r = [])) \<and>
      (\<not> (max_row sheet3 = max_row sheet4 \<and> max_column sheet3 = max_column sheet4) \<longrightarrow>
         status r = ''Error'' \<and> errors r = []))"
  using tabs_invariant structure_invariant scanner_invariant comparator_invariant by blast

lemma example_comparison:
  "compare_formulas template_sheet company_sheet =
     Inr \<lparr>status = ''Error'', description = ''Found formula differences'',
          errors = [(''A1'', [''fOut_A!A1 (=A2+1) != fOut_A!A1 (=A2+2)''])]\<rparr>"
  by code_simp

lemma example_scan:
  "check_formula_errors error_sheet =
     Inr \<lparr>status = ''Error'', description = ''Found errors'', errors = [(''#DIV/0!'', [''B3''])]\<rparr>"
  by code_simp

lemma example_dimension_mismatch:
  "compare_formulas blank_sheet empty_grid_sheet =
     Inr \<lparr>status = ''Error'', description = dimension_message blank_sheet empty_grid_sheet,
          errors = []\<rparr>"
  by (simp add: compare_formulas_def blank_sheet_def empty_grid_sheet_def)

theorem comparison_result_invariant_C1_counterexample:
  "max_row blank_sheet \<noteq> max_row empty_grid_sheet \<and>
   compare_formulas blank_sheet empty_grid_sheet =
     Inr \<lparr>status = ''Error'', description = dimension_message blank_sheet empty_grid_sheet,
          errors = []\<rparr>"
  by (simp add: example_dimension_mismatch) (simp add: blank_sheet_def empty_grid_sheet_def)

theorem comparison_result_invariant_C1_witness:
  "(\<exists>r. check_formula_errors error_sheet = Inr r \<and> status r \<noteq> ''Ok'' \<and> errors r \<noteq> []) \<and>
   (\<exists>r. compare_formulas template_sheet company_sheet = Inr r \<and>
        max_row template_sheet = max_row company_sheet \<and>
        max_column template_sheet = max_column company_sheet \<and>
        status r \<noteq> ''Ok'' \<and> errors r \<noteq> []) \<and>
   (\<exists>r. compare_formulas blank_sheet empty_grid_sheet = Inr r \<and>
        max_row blank_sheet \<noteq> max_row empty_grid_sheet \<and>
        status r = ''Error'' \<and> errors r = [])"
proof -
  have d: "max_row template_sheet = max_row company_sheet"
    "max_column template_sheet = max_column company_sheet"
    "max_row blank_sheet \<noteq> max_row empty_grid_sheet"
    by (simp_all add: template_sheet_def company_sheet_def blank_sheet_def empty_grid_sheet_def)
  let ?r1 = "\<lparr>status = ''Error'', description = ''Found errors'',
               errors = [(''#DIV/0!'', [''B3''])]\<rparr>"
  have s1: "status ?r1 \<noteq> ''Ok''" by simp
  from comparison_result_invariant_C1[of _ _ _ _ _ error_sheet] example_scan s1
  have e1: "errors ?r1 \<noteq> []" by blast
  let ?r2 = "\<lparr>status = ''Error'', description = ''Found formula differences'',
          errors = [(''A1'', [''fOut_A!A1 (=A2+1) != fOut_A!A1 (=A2+2)''])]\<rparr>"
  have s2: "status ?r2 \<noteq> ''Ok''" by simp
  from comparison_result_invariant_C1[of _ _ _ _ _ _ template_sheet company_sheet]
    example_comparison d s2
  have e2: "errors ?r2 \<noteq> []" by blast
  let ?r3 = "\<lparr>status = ''Error'', description = dimension_message blank_sheet empty_grid_sheet,
          errors = []\<rparr>"
  from comparison_result_invariant_C1[of _ _ _ _ _ _ blank_sheet empty_grid_sheet]
    example_dimension_mismatch d
  have e3: "status ?r3 = ''Error'' \<and> errors ?r3 = []" by blast
  from example_scan s1 e1 have a: "\<exists>r. check_formula_errors error_sheet = Inr r \<and>
      status r \<noteq> ''Ok'' \<and> errors r \<noteq> []" by blast
  from example_comparison d s2 e2 have b: "\<exists>r. compare_formulas template_sheet company_sheet = Inr r \<and>
        max_row template_sheet = max_row company_sheet \<and>
        max_column template_sheet = max_column company_sheet \<and>
        status r \<noteq> ''Ok'' \<and> errors r \<noteq> []" by blast
  from example_dimension_mismatch d e3 have c: "\<exists>r. compare_formulas blank_sheet empty_grid_sheet = Inr r \<and>
        max_row blank_sheet \<noteq> max_row empty_grid_sheet \<and>
        status r = ''Error'' \<and> errors r = []" by blast
  show ?thesis by (intro conjI a b c)
qed

section \<open>Header comparison of the structure comparator\<close>

lemma zip_ranges: "zip [Suc 0..<Suc a] [Suc 0..<Suc b] = map (\<lambda>i. (i, i)) [Suc 0..<Suc (min a b)]"
  by (rule nth_equalityI) (simp_all del: upt_Suc)

lemma enumerate_range_map:
  "enumerate 0 (map F [1..<Suc m]) = map (\<lambda>i. (i - 1, F i)) [1..<Suc m]"
  by (rule nth_equalityI) (simp_all add: nth_enumerate_eq del: upt_Suc)

lemma diff_headers_rows:
  "diff_headers (header_row sheet1 h a) (header_row sheet2 h b) =
     map (\<lambda>c. (c, cell_value (cell sheet1 (nat h) c), cell_value (cell sheet2 (nat h) c)))
       (filter (\<lambda>c. cell_value (cell sheet1 (nat h) c) \<noteq> cell_value (cell sheet2 (nat h) c))
          (range1 (min a b)))"
proof -
  let ?f = "\<lambda>c. cell_value (cell sheet1 (nat h) c)"
  let ?g = "\<lambda>c. cell_value (cell sheet2 (nat h) c)"
  have z: "zip (header_row sheet1 h a) (header_row sheet2 h b) =
      map (\<lambda>i. (?f i, ?g i)) [1..<min a b + 1]"
    by (simp add: header_row_def range1_def zip_map_map zip_ranges del: upt_Suc)
  have e: "enumerate 0 (zip (header_row sheet1 h a) (header_row sheet2 h b)) =
      map (\<lambda>i. (i - 1, ?f i, ?g i)) [1..<min a b + 1]"
    unfolding z using enumerate_range_map[of "\<lambda>i. (?f i, ?g i)" "min a b"] by (simp del: upt_Suc)
  have "diff_headers (header_row sheet1 h a) (header_row sheet2 h b) =
      map (\<lambda>i. (i - 1 + 1, ?f i, ?g i)) (filter (\<lambda>i. ?f i \<noteq> ?g i) [1..<min a b + 1])"
    unfolding diff_headers_def e by (simp add: filter_map comp_def del: upt_Suc)
  also have "\<dots> = map (\<lambda>i. (i, ?f i, ?g i)) (filter (\<lambda>i. ?f i \<noteq> ?g i) [1..<min a b + 1])"
    by (rule map_cong) auto
  finally show ?thesis by (simp only: range1_def)
qed

lemma keys_list_extend_at: "map fst (list_extend_at d k xs) = map fst d"
  by (induction d) (auto simp: list_extend_at_def)

lemma dict_has_setdefault_extend:
  "dict_has (setdefault_extend d k xs) k' \<longleftrightarrow> dict_has d k' \<or> k' = k"
  by (auto simp: setdefault_extend_def dict_has_def keys_list_extend_at)

lemma map_of_setdefault_extend_fresh:
  "\<not> dict_has d k \<Longrightarrow> map_of (setdefault_extend d k xs) k = Some xs"
  by (simp add: setdefault_extend_def map_of_list_extend_at dict_has_map_of map_add_def)

lemma keys_stage1:
  "\<forall>k. dict_has (if c0 then []
                 else (let e = (if c1 then setdefault_extend [] K [t1] else [])
                       in if c2 then setdefault_extend e K [t2] else e)) k \<longrightarrow> k = K"
  by (simp add: Let_def dict_has_setdefault_extend) (simp add: dict_has_def)

lemma keys_stage2:
  "\<forall>k. dict_has e k \<longrightarrow> k = K \<Longrightarrow>
   \<forall>k. dict_has (if c then setdefault_extend e K' xs else e) k \<longrightarrow> k = K \<or> k = K'"
  by (simp add: dict_has_setdefault_extend)

lemma structure_errors_shape:
  "\<exists>e2. (\<forall>k. dict_has e2 k \<longrightarrow> k = ''Empty Sheet'' \<or> k = ''Row/Column Count'') \<and>
     errors (check_sheet_structure sheet1 sheet2 h) =
       (if (if 0 < h then header_row sheet1 h (last_used_column (get_used_area sheet1)) else []) \<noteq>
           (if 0 < h then header_row sheet2 h (last_used_column (get_used_area sheet2)) else [])
        then (if diff_headers
                   (if 0 < h then header_row sheet1 h (last_used_column (get_used_area sheet1)) else [])
                   (if 0 < h then header_row sheet2 h (last_used_column (get_used_area sheet2)) else []) \<noteq> []
              then setdefault_extend e2 ''Header Mismatch''
                     (map header_mismatch_message
                        (diff_headers
                           (if 0 < h then header_row sheet1 h (last_used_column (get_used_area sheet1)) else [])
                           (if 0 < h then header_row sheet2 h (last_used_column (get_used_area sheet2)) else [])))
              else e2)
        else e2)"
proof -
  define e1 where "e1 =
     (if max_row sheet1 = max_column sheet1 \<and> max_column sheet1 = max_row sheet2 \<and>
         max_row sheet2 = max_column sheet2 \<and> max_column sheet2 = 1
      then []
      else
        (let e1 = (if max_row sheet1 = 1 \<or> max_column sheet1 = 1
                   then setdefault_extend [] ''Empty Sheet'' [title sheet1]
                   else [])
         in if max_row sheet2 = 1 \<or> max_column sheet2 = 1
            then setdefault_extend e1 ''Empty Sheet'' [title sheet2]
            else e1))"
  define e2 where "e2 =
     (if (last_used_row (get_used_area sheet1), last_used_column (get_used_area sheet1)) \<noteq>
         (last_used_row (get_used_area sheet2), last_used_column (get_used_area sheet2))
      then setdefault_extend e1 ''Row/Column Count''
             [row_column_count_message (last_used_row (get_used_area sheet1))
                (last_used_column (get_used_area sheet1)) (last_used_row (get_used_area sheet2))
                (last_used_column (get_used_area sheet2))]
      else e1)"
  have k1: "\<forall>k. dict_has e1 k \<longrightarrow> k = ''Empty Sheet''"
    unfolding e1_def by (rule keys_stage1)
  have k2: "\<forall>k. dict_has e2 k \<longrightarrow> k = ''Empty Sheet'' \<or> k = ''Row/Column Count''"
    unfolding e2_def by (rule keys_stage2[OF k1])
  have shape: "errors (check_sheet_structure sheet1 sheet2 h) =
       (if (if 0 < h then header_row sheet1 h (last_used_column (get_used_area sheet1)) else []) \<noteq>
           (if 0 < h then header_row sheet2 h (last_used_column (get_used_area sheet2)) else [])
        then (if diff_headers
                   (if 0 < h then header_row sheet1 h (last_used_column (get_used_area sheet1)) else [])
                   (if 0 < h then header_row sheet2 h (last_used_column (get_used_area sheet2)) else []) \<noteq> []
              then setdefault_extend e2 ''Header Mismatch''
                     (map header_mismatch_message
                        (diff_headers
                           (if 0 < h then header_row sheet1 h (last_used_column (get_used_area sheet1)) else [])
                           (if 0 < h then header_row sheet2 h (last_used_column (get_used_area sheet2)) else [])))
              else e2)
        else e2)" (is "_ = ?E")
  proof -
    have "check_sheet_structure sheet1 sheet2 h =
       (if ?E \<noteq> []
        then \<lparr>status = ''Error'',
              description = ''The following discrepancies were found in the sheet structure:'',
              errors = ?E\<rparr>
        else \<lparr>status = ''Ok'',
              description = ''Spreadsheets '' @ quote (title sheet1) @ '' and '' @
                            quote (title sheet2) @ '' have the same structure.'',
              errors = []\<rparr>)"
      unfolding check_sheet_structure_def e2_def e1_def Let_def by (rule refl)
    then show ?thesis by (cases "?E = []") simp_all
  qed
  from k2 shape show ?thesis by blast
qed


lemma diff_headers_same: "diff_headers xs xs = []"
  by (auto simp: diff_headers_def filter_empty_conv in_set_enumerate_eq in_set_zip)

lemma header_messages:
  "map header_mismatch_message
     (diff_headers (header_row sheet1 h (last_used_column (get_used_area sheet1)))
                   (header_row sheet2 h (last_used_column (get_used_area sheet2)))) =
   header_mismatches sheet1 sheet2 h"
  by (simp add: diff_headers_rows header_mismatches_def comp_def)

lemma not_stage_key:
  "\<forall>k. dict_has e k \<longrightarrow> k = K1 \<or> k = K2 \<Longrightarrow> K \<noteq> K1 \<Longrightarrow> K \<noteq> K2 \<Longrightarrow> \<not> dict_has e K"
  by blast

text \<open>
Claim C10. With a header row number above 0, the structure comparator reads the
  header of each sheet over that sheet's own used columns and compares the two
  sequences position by position up to the shorter one: \<^verbatim>\<open>Header Mismatch\<close> holds
  exactly one message for each column, up to the smaller of the two used-column counts,
  at which the header cells differ, and is absent when there is none. So a column beyond
  the shorter header never gives an entry, and headers that agree on the common columns
  give no \<^verbatim>\<open>Header Mismatch\<close> even when their lengths differ.
\<close>

theorem structure_header_C10:
  assumes "0 < h"
  shows "map_of (errors (check_sheet_structure sheet1 sheet2 h)) ''Header Mismatch'' =
           (if header_mismatches sheet1 sheet2 h = [] then None
            else Some (header_mismatches sheet1 sheet2 h)) \<and>
         length (header_mismatches sheet1 sheet2 h) \<le>
           min (last_used_column (get_used_area sheet1)) (last_used_column (get_used_area sheet2)) \<and>
         ((\<forall>c. 1 \<le> c \<and> c \<le> min (last_used_column (get_used_area sheet1))
                                (last_used_column (get_used_area sheet2)) \<longrightarrow>
               cell_value (cell sheet1 (nat h) c) = cell_value (cell sheet2 (nat h) c)) \<longrightarrow>
          map_of (errors (check_sheet_structure sheet1 sheet2 h)) ''Header Mismatch'' = None)"
proof -
  let ?h1 = "header_row sheet1 h (last_used_column (get_used_area sheet1))"
  let ?h2 = "header_row sheet2 h (last_used_column (get_used_area sheet2))"
  let ?hm = "header_mismatches sheet1 sheet2 h"
  from structure_errors_shape[of sheet1 sheet2 h] assms obtain e2 where
    keys: "\<forall>k. dict_has e2 k \<longrightarrow> k = ''Empty Sheet'' \<or> k = ''Row/Column Count''"
    and shape: "errors (check_sheet_structure sheet1 sheet2 h) =
       (if ?h1 \<noteq> ?h2
        then (if diff_headers ?h1 ?h2 \<noteq> []
              then setdefault_extend e2 ''Header Mismatch''
                     (map header_mismatch_message (diff_headers ?h1 ?h2))
              else e2)
        else e2)"
    by auto
  have fresh: "\<not> dict_has e2 ''Header Mismatch''"
    by (rule not_stage_key[OF keys]) simp_all
  then have none: "map_of e2 ''Header Mismatch'' = None" by (simp add: dict_has_map_of)
  have empty_iff: "diff_headers ?h1 ?h2 = [] \<longleftrightarrow> ?hm = []"
    using header_messages[of sheet1 h sheet2] by (metis map_is_Nil_conv)
  have same: "?h1 = ?h2 \<Longrightarrow> ?hm = []"
    using empty_iff diff_headers_same[of ?h1] by simp
  have c1: "map_of (errors (check_sheet_structure sheet1 sheet2 h)) ''Header Mismatch'' =
           (if ?hm = [] then None else Some ?hm)"
  proof (cases "?h1 = ?h2")
    case True
    with shape none same show ?thesis by simp
  next
    case ne: False
    show ?thesis
    proof (cases "?hm = []")
      case True
      with ne shape none empty_iff show ?thesis by simp
    next
      case False
      with ne shape empty_iff have "errors (check_sheet_structure sheet1 sheet2 h) =
          setdefault_extend e2 ''Header Mismatch'' ?hm"
        by (simp add: header_messages)
      with False map_of_setdefault_extend_fresh[OF fresh, of ?hm] show ?thesis by simp
    qed
  qed
  have c2: "length ?hm \<le>
      min (last_used_column (get_used_area sheet1)) (last_used_column (get_used_area sheet2))"
  proof -
    have "length ?hm \<le> length (range1 (min (last_used_column (get_used_area sheet1))
                                            (last_used_column (get_used_area sheet2))))"
      unfolding header_mismatches_def length_map by (rule length_filter_le)
    moreover have "length (range1 (min (last_used_column (get_used_area sheet1))
                                       (last_used_column (get_used_area sheet2)))) =
        min (last_used_column (get_used_area sheet1)) (last_used_column (get_used_area sheet2))"
      by (simp add: range1_def del: upt_Suc)
    ultimately show ?thesis by (simp only:)
  qed
  have c3: "(\<forall>c. 1 \<le> c \<and> c \<le> min (last_used_column (get_used_area sheet1))
                                (last_used_column (get_used_area sheet2)) \<longrightarrow>
               cell_value (cell sheet1 (nat h) c) = cell_value (cell sheet2 (nat h) c)) \<longrightarrow>
          map_of (errors (check_sheet_structure sheet1 sheet2 h)) ''Header Mismatch'' = None"
  proof
    assume a: "\<forall>c. 1 \<le> c \<and> c \<le> min (last_used_column (get_used_area sheet1))
                                (last_used_column (get_used_area sheet2)) \<longrightarrow>
               cell_value (cell sheet1 (nat h) c) = cell_value (cell sheet2 (nat h) c)"
    then have "?hm = []"
      by (auto simp: header_mismatches_def filter_empty_conv set_range1)
    with c1 show "map_of (errors (check_sheet_structure sheet1 sheet2 h)) ''Header Mismatch'' = None"
      by simp
  qed
  show ?thesis by (intro conjI c1 c2 c3)
qed

lemma example_header_mismatches:
  "header_mismatches padded_sheet wide_sheet 1 = [''Column 2: Template: [None] != [Qty] :Company'']"
  by code_simp

lemma example_used_columns:
  "last_used_column (get_used_area padded_sheet) = 2"
  "last_used_column (get_used_area wide_sheet) = 3"
  by code_simp+

theorem structure_header_C10_witness:
  "(0::int) < 1 \<and>
   last_used_column (get_used_area padded_sheet) = 2 \<and>
   last_used_column (get_used_area wide_sheet) = 3 \<and>
   cell_value (cell wide_sheet 1 3) = SStr ''Extra'' \<and>
   map_of (errors (check_sheet_structure padded_sheet wide_sheet 1)) ''Header Mismatch'' =
     Some [''Column 2: Template: [None] != [Qty] :Company'']"
proof -
  have h: "(0::int) < 1" by simp
  have c: "cell_value (cell wide_sheet 1 3) = SStr ''Extra''" by (simp add: wide_sheet_def)
  from structure_header_C10[OF h, of padded_sheet wide_sheet]
  have m: "map_of (errors (check_sheet_structure padded_sheet wide_sheet 1)) ''Header Mismatch'' =
     Some [''Column 2: Template: [None] != [Qty] :Company'']"
    by (simp add: example_header_mismatches)
  show ?thesis by (intro conjI h example_used_columns c m)
qed

section \<open>Orchestrators over zero common sheets\<close>

lemma no_common_sheetnames:
  "set (sheetnames wb1) \<inter> set (sheetnames wb2) = {} \<Longrightarrow>
   set_intersection (py_set (sheetnames wb1)) (py_set (sheetnames wb2)) = []"
  by (auto simp: set_intersection_def py_set_def filter_empty_conv)

text \<open>
Claim C3. For two workbooks with no common sheet name, \<open>find_shape_differences\<close>
  returns an empty collection: its guard before the concatenation catches the empty list
  of frames. \<open>find_formula_differences\<close> has no such guard and hands the empty list to
  \<^verbatim>\<open>pd.concat\<close>, which raises \<^verbatim>\<open>ValueError\<close>; the claim fails for it.
\<close>

theorem orchestrators_no_common_sheets_C3:
  assumes "set (sheetnames wb_template) \<inter> set (sheetnames wb_company) = {}"
  shows "find_shape_differences wb_template wb_company g = Inr ([], g) \<and>
         find_formula_differences wb_template wb_company g = Inl ValueError"
  by (simp add: find_shape_differences_def find_formula_differences_def
      no_common_sheetnames[OF assms] pd_concat_def)

lemma names_template: "sheetnames template_workbook = [''fOut_A'', ''Data'']"
  by (simp add: sheetnames_def template_workbook_def template_sheet_def error_sheet_def)

lemma names_other: "sheetnames other_workbook = [''Sheet'']"
  by (simp add: sheetnames_def other_workbook_def blank_sheet_def)

theorem orchestrators_no_common_sheets_C3_witness:
  "set (sheetnames template_workbook) \<inter> set (sheetnames other_workbook) = {} \<and>
   find_shape_differences template_workbook other_workbook example_rng = Inr ([], example_rng) \<and>
   find_formula_differences template_workbook other_workbook example_rng = Inl ValueError"
proof -
  have h: "set (sheetnames template_workbook) \<inter> set (sheetnames other_workbook) = {}"
    by (simp add: names_template names_other)
  from h orchestrators_no_common_sheets_C3[OF h, of example_rng] show ?thesis by blast
qed

section \<open>Validation in the event normalizers\<close>


lemma first_token: "str_nat 0 = ''0''"
  by code_simp



section \<open>Duplicate-description checker\<close>

lemma first_seen_set: "set (first_seen xs) = set xs"
  by (induction xs rule: first_seen.induct) auto

lemma first_seen_distinct: "distinct (first_seen xs)"
  by (induction xs rule: first_seen.induct) (auto simp: first_seen_set)

lemma first_seen_length: "length (first_seen xs) = card (set xs)"
  using distinct_card[OF first_seen_distinct, of xs] by (simp add: first_seen_set)

lemma group_codes:
  "set (map measure_cd (desc_group rows d)) = measure_cd ` {r \<in> set rows. measure_desc r = d}"
  by (auto simp: desc_group_def)

lemma multi_code_iff:
  "1 < length (first_seen (map measure_cd (desc_group rows d))) \<longleftrightarrow>
   1 < card (measure_cd ` {r \<in> set rows. measure_desc r = d})"
  by (simp only: first_seen_length group_codes)

lemma description_events_spec:
  "\<exists>evs' g'. description_events ds rows metadata g evs = (evs @ evs', g') \<and>
     map error_desc evs' =
       map (\<lambda>d. pairs_description (desc_group rows d))
         (filter (\<lambda>d. 1 < card (measure_cd ` {r \<in> set rows. measure_desc r = d})) ds) \<and>
     (\<forall>e \<in> set evs'. event_metadata e = metadata)"
proof (induction ds arbitrary: g evs)
  case Nil
  show ?case by simp
next
  case (Cons d ds)
  show ?case
  proof (cases "1 < card (measure_cd ` {r \<in> set rows. measure_desc r = d})")
    case False
    then have step: "description_events (d # ds) rows metadata g evs =
        description_events ds rows metadata g evs"
      using multi_code_iff[of rows d] by simp
    from Cons.IH[of g evs] False show ?thesis unfolding step by simp
  next
    case True
    let ?e = "\<lparr>event_id = draws g (drawn g), event_metadata = metadata,
               error_desc = pairs_description (desc_group rows d)\<rparr>"
    let ?g = "g\<lparr>drawn := drawn g + 1\<rparr>"
    have step: "description_events (d # ds) rows metadata g evs =
        description_events ds rows metadata ?g (evs @ [?e])"
      using True multi_code_iff[of rows d] by (simp add: uuid4_hex_def)
    from Cons.IH[of ?g "evs @ [?e]"] obtain evs' g' where
      r: "description_events ds rows metadata ?g (evs @ [?e]) = ((evs @ [?e]) @ evs', g')"
      and m: "map error_desc evs' =
       map (\<lambda>d. pairs_description (desc_group rows d))
         (filter (\<lambda>d. 1 < card (measure_cd ` {r \<in> set rows. measure_desc r = d})) ds)"
      and md: "\<forall>e \<in> set evs'. event_metadata e = metadata"
      by blast
    have "description_events (d # ds) rows metadata g evs = (evs @ (?e # evs'), g')"
      unfolding step r by simp
    moreover have "map error_desc (?e # evs') =
       map (\<lambda>d. pairs_description (desc_group rows d))
         (filter (\<lambda>d. 1 < card (measure_cd ` {r \<in> set rows. measure_desc r = d})) (d # ds))"
      using True m by simp
    moreover have "\<forall>e \<in> set (?e # evs'). event_metadata e = metadata"
      using md by simp
    ultimately show ?thesis by blast
  qed
qed

lemma multi_groups_count:
  "length (filter P (first_seen (map measure_desc rows))) =
   card {d \<in> measure_desc ` set rows. P d}"
proof -
  have "distinct (filter P (first_seen (map measure_desc rows)))"
    by (simp add: first_seen_distinct)
  then have "length (filter P (first_seen (map measure_desc rows))) =
      card (set (filter P (first_seen (map measure_desc rows))))"
    by (rule distinct_card[symmetric])
  also have "set (filter P (first_seen (map measure_desc rows))) = {d \<in> measure_desc ` set rows. P d}"
    by (auto simp: first_seen_set)
  finally show ?thesis .
qed

text \<open>
Claim C2. For a table that has the columns \<^verbatim>\<open>Measure_Cd\<close>, \<^verbatim>\<open>Measure_Desc\<close> and
  \<^verbatim>\<open>Sheet_Cd\<close>, the checker returns one event for each description under which
  more than one distinct code occurs, in first-seen order of the descriptions; the
  description of the event is every (code, sheet) pair of that group joined by
  \<^verbatim>\<open>" -- "\<close> in first-seen order, and its other fields are the batch metadata. The
  number of events is the number of such groups; an empty table and a table whose groups
  all have a single distinct code give no event.
\<close>

theorem duplicate_description_checker_C2:
  assumes "set required_columns \<subseteq> set (table_columns df)"
  shows "\<exists>evs g'. create_same_desc_diff_boncode_validation_event df metadata g = Inr (evs, g') \<and>
     map error_desc evs =
       map (\<lambda>d. join '' -- ''
                  (concat (map (\<lambda>(c, s). [c, s])
                     (first_seen (map (\<lambda>r. (measure_cd r, sheet_cd r))
                        (filter (\<lambda>r. measure_desc r = d) (table_rows df)))))))
         (filter (\<lambda>d. 1 < card (measure_cd ` {r \<in> set (table_rows df). measure_desc r = d}))
            (first_seen (map measure_desc (table_rows df)))) \<and>
     length evs =
       card {d \<in> measure_desc ` set (table_rows df).
               1 < card (measure_cd ` {r \<in> set (table_rows df). measure_desc r = d})} \<and>
     (\<forall>e \<in> set evs. event_metadata e = metadata) \<and>
     (table_rows df = [] \<longrightarrow> evs = []) \<and>
     ((\<forall>d. card (measure_cd ` {r \<in> set (table_rows df). measure_desc r = d}) \<le> 1) \<longrightarrow> evs = [])"
proof -
  let ?P = "\<lambda>d. 1 < card (measure_cd ` {r \<in> set (table_rows df). measure_desc r = d})"
  let ?ds = "first_seen (map measure_desc (table_rows df))"
  from assms have cols: "list_all (\<lambda>c. c \<in> set (table_columns df)) required_columns"
    by (auto simp: list_all_iff)
  from description_events_spec[of ?ds "table_rows df" metadata g "[]"] obtain evs g' where
    r: "description_events ?ds (table_rows df) metadata g [] = (evs, g')"
    and m: "map error_desc evs =
       map (\<lambda>d. pairs_description (desc_group (table_rows df) d)) (filter ?P ?ds)"
    and md: "\<forall>e \<in> set evs. event_metadata e = metadata"
    by auto
  have ret: "create_same_desc_diff_boncode_validation_event df metadata g = Inr (evs, g')"
    using cols r by (simp add: create_same_desc_diff_boncode_validation_event_def)
  have c1: "map error_desc evs =
       map (\<lambda>d. join '' -- ''
                  (concat (map (\<lambda>(c, s). [c, s])
                     (first_seen (map (\<lambda>r. (measure_cd r, sheet_cd r))
                        (filter (\<lambda>r. measure_desc r = d) (table_rows df)))))))
         (filter ?P ?ds)"
    using m by (simp only: pairs_description_def desc_group_def)
  have len: "length evs = length (filter ?P ?ds)"
    using arg_cong[OF m, of length] by simp
  then have c2: "length evs = card {d \<in> measure_desc ` set (table_rows df). ?P d}"
    by (simp only: multi_groups_count)
  have c3: "table_rows df = [] \<longrightarrow> evs = []"
    using len by auto
  have c4: "(\<forall>d. card (measure_cd ` {r \<in> set (table_rows df). measure_desc r = d}) \<le> 1) \<longrightarrow> evs = []"
  proof
    assume "\<forall>d. card (measure_cd ` {r \<in> set (table_rows df). measure_desc r = d}) \<le> 1"
    then have "filter ?P ?ds = []" by (auto simp: filter_empty_conv not_less)
    with len show "evs = []" by simp
  qed
  show ?thesis
    by (rule exI[of _ evs], rule exI[of _ g']) (intro conjI ret c1 c2 md c3 c4)
qed

lemma missing_columns_fail:
  "\<not> set required_columns \<subseteq> set (table_columns df) \<Longrightarrow>
   create_same_desc_diff_boncode_validation_event df metadata g = Inl ValueError"
  by (auto simp: create_same_desc_diff_boncode_validation_event_def list_all_iff)

lemma example_duplicates:
  "create_same_desc_diff_boncode_validation_event duplicates_table batch_metadata example_rng =
     Inr ([\<lparr>event_id = ''0'', event_metadata = batch_metadata,
            error_desc = ''A1 -- sheet1 -- A2 -- sheet2''\<rparr>],
          example_rng\<lparr>drawn := 1\<rparr>)"
  by (simp add: create_same_desc_diff_boncode_validation_event_def duplicates_table_def
      required_columns_def desc_group_def pairs_description_def uuid4_hex_def example_rng_def
      first_token)

theorem duplicate_description_checker_C2_witness:
  "set required_columns \<subseteq> set (table_columns duplicates_table) \<and>
   create_same_desc_diff_boncode_validation_event duplicates_table batch_metadata example_rng =
     Inr ([\<lparr>event_id = ''0'', event_metadata = batch_metadata,
            error_desc = ''A1 -- sheet1 -- A2 -- sheet2''\<rparr>],
          example_rng\<lparr>drawn := 1\<rparr>) \<and>
   card {d \<in> measure_desc ` set (table_rows duplicates_table).
           1 < card (measure_cd ` {r \<in> set (table_rows duplicates_table). measure_desc r = d})} = 1"
proof -
  have h: "set required_columns \<subseteq> set (table_columns duplicates_table)"
    by (simp add: required_columns_def duplicates_table_def)
  from duplicate_description_checker_C2[OF h, of batch_metadata example_rng] obtain evs g' where
    r: "create_same_desc_diff_boncode_validation_event duplicates_table batch_metadata example_rng =
          Inr (evs, g')"
    and n: "length evs =
       card {d \<in> measure_desc ` set (table_rows duplicates_table).
               1 < card (measure_cd ` {r \<in> set (table_rows duplicates_table). measure_desc r = d})}"
    by blast
  from r have "evs = [\<lparr>event_id = ''0'', event_metadata = batch_metadata,
            error_desc = ''A1 -- sheet1 -- A2 -- sheet2''\<rparr>]"
    by (simp add: example_duplicates)
  with n have c: "card {d \<in> measure_desc ` set (table_rows duplicates_table).
           1 < card (measure_cd ` {r \<in> set (table_rows duplicates_table). measure_desc r = d})} = 1"
    by simp
  show ?thesis by (intro conjI h example_duplicates c)
qed

end
